theory Spec2Isabelle
  imports Main "HOL-Library.Word" "HOL-Library.Signed_Division"
begin

section \<open>Common types (include/common.hpp)\<close>

text \<open>
  Machine integers are words of their width. A \<^verbatim>\<open>float\<close> is only ever copied by the
  modelled code, never computed with, so it is carried as its IEEE-754 binary32 bit
  pattern. A \<^verbatim>\<open>void*\<close> is an address; address 0 is \<^verbatim>\<open>nullptr\<close>.
\<close>

type_synonym int32 = "32 word"
type_synonym int64 = "64 word"
type_synonym uint8 = "8 word"
type_synonym uint32 = "32 word"
type_synonym uint64 = "64 word"
type_synonym float32 = "32 word"
type_synonym pointer = nat

text \<open>
  What C++ leaves undefined or answers with a trap is a value of the model: a call
  that dereferences a null pointer, divides by zero or indexes out of range returns
  \<open>Inl\<close> of the fault instead of a result.
\<close>

datatype fault = NullDereference | DivideByZero | SignedOverflow | OutOfRange | RuntimeError

datatype StreamType = JPEG | RGB | RAW

record StreamConfig =
  sc_type :: StreamType
  sc_width :: uint32
  sc_height :: uint32

text \<open>
  \<^verbatim>\<open>struct Frame\<close>: \<open>data\<close> is the bytes the span views; \<open>owner\<close> is the shared
  vector that keeps them alive (\<open>None\<close> is \<^verbatim>\<open>nullptr\<close>: the view is borrowed).
\<close>

record Frame =
  data :: "uint8 list"
  timestamp :: uint64
  sequence :: uint32
  owner :: "uint8 list option"

text \<open>\<^verbatim>\<open>std::array<float, 2>\<close> is a pair; its \<^verbatim>\<open>size()\<close> is the constant 2.\<close>

type_synonym float_array2 = "float32 \<times> float32"

definition array2_size :: "float_array2 \<Rightarrow> nat" where
  "array2_size a = 2"

definition array2_data :: "float_array2 \<Rightarrow> float32 list" where
  "array2_data a = [fst a, snd a]"

record Controls =
  exposureMode :: "int32 option"
  exposureTime :: "int32 option"
  analogueGain :: "float32 option"
  afMode :: "int32 option"
  afTrigger :: "int32 option"
  lensPosition :: "float32 option"
  awbMode :: "int32 option"
  colourGains :: "float_array2 option"
  brightness :: "float32 option"
  contrast :: "float32 option"
  saturation :: "float32 option"
  sharpness :: "float32 option"
  targetFps :: "int32 option"
  jpegQuality :: "int32 option"

text \<open>A default-constructed \<^verbatim>\<open>Controls\<close>: every field unset.\<close>

definition noControls :: Controls where
  "noControls = \<lparr>exposureMode = None, exposureTime = None, analogueGain = None,
     afMode = None, afTrigger = None, lensPosition = None, awbMode = None,
     colourGains = None, brightness = None, contrast = None, saturation = None,
     sharpness = None, targetFps = None, jpegQuality = None\<rparr>"

definition assignIfSet :: "'a option \<Rightarrow> 'a option \<Rightarrow> 'a option" where
  "assignIfSet target source = (case source of None \<Rightarrow> target | Some v \<Rightarrow> Some v)"

text \<open>
  A frame callback and an error callback are opaque functions of the caller; the model
  names them by an identity and records each invocation as an event, in the order the
  code makes them. The third event is the completion handler's call of
  \<^verbatim>\<open>JpegEncoder::encode\<close> with its arguments (the bytes readable at the data pointer,
  width, height, quality, timestamp, sequence, callback).
\<close>

type_synonym FrameCallback = nat
type_synonym ErrorCallback = nat

datatype event =
  FrameDelivered FrameCallback StreamType Frame
  | ErrorReported ErrorCallback string
  | EncodeRequested "uint8 list" uint32 uint32 int32 uint64 uint32 FrameCallback

section \<open>The device request's control list (libcamera, external)\<close>

text \<open>
  The controls of libcamera that the code names, and the values it stores under them.
  A \<^verbatim>\<open>ControlList\<close> maps a control to its value; \<^verbatim>\<open>set\<close> overwrites.
\<close>

datatype ControlId =
  AeExposureMode | ExposureTime | AnalogueGain | AfMode | AfTrigger | LensPosition
  | AwbMode | ColourGains | Brightness | Contrast | Saturation | Sharpness
  | FrameDurationLimits

datatype ControlValue =
  Int32Value int32
  | FloatValue float32
  | FloatSpan "float32 list"
  | Int64Span "int64 list"

type_synonym ControlList = "ControlId \<rightharpoonup> ControlValue"

definition ctl_set :: "ControlList \<Rightarrow> ControlId \<Rightarrow> ControlValue \<Rightarrow> ControlList" where
  "ctl_set cl cid v = cl(cid \<mapsto> v)"

section \<open>ControlManager (core/control_manager.cpp)\<close>

text \<open>
  A private member \<^verbatim>\<open>name_\<close> of a class is the record field \<open>cm_name\<close>,
  \<open>sm_name\<close>, \<open>enc_name\<close> or \<open>impl_name\<close> of its class: a record field cannot end
  with an underscore, and several classes share member names.
\<close>

record ControlManager =
  cm_currentControls :: Controls
  cm_pendingControls :: Controls

definition ControlManager_new :: ControlManager where
  "ControlManager_new = \<lparr>cm_currentControls = noControls, cm_pendingControls = noControls\<rparr>"

text \<open>The fourteen \<^verbatim>\<open>assignIfSet\<close> lines that open \<^verbatim>\<open>applyControls\<close>.\<close>

definition mergeControls :: "Controls \<Rightarrow> Controls \<Rightarrow> Controls" where
  "mergeControls p c =
     \<lparr>exposureMode = assignIfSet (exposureMode p) (exposureMode c),
      exposureTime = assignIfSet (exposureTime p) (exposureTime c),
      analogueGain = assignIfSet (analogueGain p) (analogueGain c),
      afMode = assignIfSet (afMode p) (afMode c),
      afTrigger = assignIfSet (afTrigger p) (afTrigger c),
      lensPosition = assignIfSet (lensPosition p) (lensPosition c),
      awbMode = assignIfSet (awbMode p) (awbMode c),
      colourGains = assignIfSet (colourGains p) (colourGains c),
      brightness = assignIfSet (brightness p) (brightness c),
      contrast = assignIfSet (contrast p) (contrast c),
      saturation = assignIfSet (saturation p) (saturation c),
      sharpness = assignIfSet (sharpness p) (sharpness c),
      targetFps = assignIfSet (targetFps p) (targetFps c),
      jpegQuality = assignIfSet (jpegQuality p) (jpegQuality c)\<rparr>"

text \<open>
  The three objects the body of \<^verbatim>\<open>applyControls\<close> mutates: the manager's pending and
  current sets and the request's control list. Each \<^verbatim>\<open>if\<close> block of the source is one
  step on them, in the source's order.
\<close>

record apply_state =
  pending :: Controls
  current :: Controls
  reqControls :: ControlList

definition apply_exposureMode :: "apply_state \<Rightarrow> apply_state" where
  "apply_exposureMode t = (case exposureMode (pending t) of
     None \<Rightarrow> t
   | Some v \<Rightarrow> t\<lparr>reqControls := ctl_set (reqControls t) AeExposureMode (Int32Value v),
                 current := (current t)\<lparr>exposureMode := exposureMode (pending t)\<rparr>\<rparr>)"

definition apply_exposureTime :: "apply_state \<Rightarrow> apply_state" where
  "apply_exposureTime t = (case exposureTime (pending t) of
     None \<Rightarrow> t
   | Some v \<Rightarrow> t\<lparr>reqControls := ctl_set (reqControls t) ExposureTime (Int32Value v),
                 current := (current t)\<lparr>exposureTime := exposureTime (pending t)\<rparr>\<rparr>)"

definition apply_analogueGain :: "apply_state \<Rightarrow> apply_state" where
  "apply_analogueGain t = (case analogueGain (pending t) of
     None \<Rightarrow> t
   | Some v \<Rightarrow> t\<lparr>reqControls := ctl_set (reqControls t) AnalogueGain (FloatValue v),
                 current := (current t)\<lparr>analogueGain := analogueGain (pending t)\<rparr>\<rparr>)"

definition apply_afMode :: "apply_state \<Rightarrow> apply_state" where
  "apply_afMode t = (case afMode (pending t) of
     None \<Rightarrow> t
   | Some v \<Rightarrow> t\<lparr>reqControls := ctl_set (reqControls t) AfMode (Int32Value v),
                 current := (current t)\<lparr>afMode := afMode (pending t)\<rparr>\<rparr>)"

text \<open>The one-shot control: written, then reset in pending; current is not touched.\<close>

definition apply_afTrigger :: "apply_state \<Rightarrow> apply_state" where
  "apply_afTrigger t = (case afTrigger (pending t) of
     None \<Rightarrow> t
   | Some v \<Rightarrow> t\<lparr>reqControls := ctl_set (reqControls t) AfTrigger (Int32Value v),
                 pending := (pending t)\<lparr>afTrigger := None\<rparr>\<rparr>)"

definition apply_lensPosition :: "apply_state \<Rightarrow> apply_state" where
  "apply_lensPosition t = (case lensPosition (pending t) of
     None \<Rightarrow> t
   | Some v \<Rightarrow> t\<lparr>reqControls := ctl_set (reqControls t) LensPosition (FloatValue v),
                 current := (current t)\<lparr>lensPosition := lensPosition (pending t)\<rparr>\<rparr>)"

definition apply_awbMode :: "apply_state \<Rightarrow> apply_state" where
  "apply_awbMode t = (case awbMode (pending t) of
     None \<Rightarrow> t
   | Some v \<Rightarrow> t\<lparr>reqControls := ctl_set (reqControls t) AwbMode (Int32Value v),
                 current := (current t)\<lparr>awbMode := awbMode (pending t)\<rparr>\<rparr>)"

definition apply_colourGains :: "apply_state \<Rightarrow> apply_state" where
  "apply_colourGains t = (case colourGains (pending t) of
     None \<Rightarrow> t
   | Some gains \<Rightarrow>
       if array2_size gains \<ge> 2
       then t\<lparr>reqControls := ctl_set (reqControls t) ColourGains (FloatSpan (take 2 (array2_data gains))),
              current := (current t)\<lparr>colourGains := colourGains (pending t)\<rparr>\<rparr>
       else t)"

definition apply_brightness :: "apply_state \<Rightarrow> apply_state" where
  "apply_brightness t = (case brightness (pending t) of
     None \<Rightarrow> t
   | Some v \<Rightarrow> t\<lparr>reqControls := ctl_set (reqControls t) Brightness (FloatValue v),
                 current := (current t)\<lparr>brightness := brightness (pending t)\<rparr>\<rparr>)"

definition apply_contrast :: "apply_state \<Rightarrow> apply_state" where
  "apply_contrast t = (case contrast (pending t) of
     None \<Rightarrow> t
   | Some v \<Rightarrow> t\<lparr>reqControls := ctl_set (reqControls t) Contrast (FloatValue v),
                 current := (current t)\<lparr>contrast := contrast (pending t)\<rparr>\<rparr>)"

definition apply_saturation :: "apply_state \<Rightarrow> apply_state" where
  "apply_saturation t = (case saturation (pending t) of
     None \<Rightarrow> t
   | Some v \<Rightarrow> t\<lparr>reqControls := ctl_set (reqControls t) Saturation (FloatValue v),
                 current := (current t)\<lparr>saturation := saturation (pending t)\<rparr>\<rparr>)"

definition apply_sharpness :: "apply_state \<Rightarrow> apply_state" where
  "apply_sharpness t = (case sharpness (pending t) of
     None \<Rightarrow> t
   | Some v \<Rightarrow> t\<lparr>reqControls := ctl_set (reqControls t) Sharpness (FloatValue v),
                 current := (current t)\<lparr>sharpness := sharpness (pending t)\<rparr>\<rparr>)"

text \<open>
  \<^verbatim>\<open>1000000 / *cm_pendingControls.targetFps\<close>: division of two \<^verbatim>\<open>int\<close>s, which C++
  truncates towards zero and leaves undefined for a zero divisor and for
  \<^verbatim>\<open>INT_MIN / -1\<close>.
\<close>

definition int32_div :: "int32 \<Rightarrow> int32 \<Rightarrow> fault + int32" where
  "int32_div a b =
     (if b = 0 then Inl DivideByZero
      else if sint a = - (2 ^ 31) \<and> sint b = - 1 then Inl SignedOverflow
      else Inr (word_of_int (sint a sdiv sint b)))"

definition apply_targetFps :: "apply_state \<Rightarrow> fault + apply_state" where
  "apply_targetFps t = (case targetFps (pending t) of
     None \<Rightarrow> Inr t
   | Some fps \<Rightarrow>
       (case int32_div 1000000 fps of
          Inl e \<Rightarrow> Inl e
        | Inr duration \<Rightarrow>
            Inr (t\<lparr>reqControls := ctl_set (reqControls t) FrameDurationLimits
                        (Int64Span [scast duration, scast duration]),
                   current := (current t)\<lparr>targetFps := targetFps (pending t)\<rparr>\<rparr>)))"

text \<open>JPEG quality is handled by the encoder: no write to the request.\<close>

definition apply_jpegQuality :: "apply_state \<Rightarrow> apply_state" where
  "apply_jpegQuality t = (case jpegQuality (pending t) of
     None \<Rightarrow> t
   | Some v \<Rightarrow> t\<lparr>current := (current t)\<lparr>jpegQuality := jpegQuality (pending t)\<rparr>\<rparr>)"

text \<open>The blocks from exposure mode to sharpness, which cannot fault.\<close>

definition apply_upto_sharpness :: "apply_state \<Rightarrow> apply_state" where
  "apply_upto_sharpness t0 =
     (let t1 = apply_exposureMode t0;
          t2 = apply_exposureTime t1;
          t3 = apply_analogueGain t2;
          t4 = apply_afMode t3;
          t5 = apply_afTrigger t4;
          t6 = apply_lensPosition t5;
          t7 = apply_awbMode t6;
          t8 = apply_colourGains t7;
          t9 = apply_brightness t8;
          t10 = apply_contrast t9;
          t11 = apply_saturation t10
      in apply_sharpness t11)"

text \<open>
  \<^verbatim>\<open>ControlManager::applyControls(controls, request)\<close>: the request enters as its
  control list and leaves as the updated one.
\<close>

definition applyControls ::
  "ControlManager \<Rightarrow> Controls \<Rightarrow> ControlList \<Rightarrow> fault + (ControlManager \<times> ControlList)" where
  "applyControls cm controls rc =
     (let t0 = \<lparr>pending = mergeControls (cm_pendingControls cm) controls,
                current = cm_currentControls cm,
                reqControls = rc\<rparr>;
          t12 = apply_upto_sharpness t0
      in case apply_targetFps t12 of
           Inl e \<Rightarrow> Inl e
         | Inr t13 \<Rightarrow>
             (let t14 = apply_jpegQuality t13
              in Inr (cm\<lparr>cm_pendingControls := pending t14, cm_currentControls := current t14\<rparr>,
                      reqControls t14)))"

text \<open>
  A replacement of the jpeg-quality of pending, used to state that no block before the
  last reads it.
\<close>

definition set_pending_quality :: "int32 option \<Rightarrow> apply_state \<Rightarrow> apply_state" where
  "set_pending_quality z t = t\<lparr>pending := (pending t)\<lparr>jpegQuality := z\<rparr>\<rparr>"

definition getCurrentControls :: "ControlManager \<Rightarrow> Controls" where
  "getCurrentControls cm = cm_currentControls cm"

text \<open>
  A run of \<^verbatim>\<open>applyControls\<close> calls, each with its control set and the control list of
  its request; the result is the manager after the last call and the control lists the
  requests leave with, in call order.
\<close>

fun applyControls_seq ::
  "ControlManager \<Rightarrow> (Controls \<times> ControlList) list \<Rightarrow> fault + (ControlManager \<times> ControlList list)" where
  "applyControls_seq cm [] = Inr (cm, [])"
| "applyControls_seq cm ((c, rc) # calls) =
     (case applyControls cm c rc of
        Inl e \<Rightarrow> Inl e
      | Inr (cm', rc') \<Rightarrow>
          (case applyControls_seq cm' calls of
             Inl e \<Rightarrow> Inl e
           | Inr (cm'', rcs) \<Rightarrow> Inr (cm'', rc' # rcs)))"

section \<open>The camera layer (libcamera, external)\<close>

text \<open>
  A \<^verbatim>\<open>Stream*\<close> and a \<^verbatim>\<open>FrameBuffer*\<close> are addresses. A frame buffer is known by its
  address and its planes; a request by its status, its metadata, its buffer map (kept
  in the order \<^verbatim>\<open>std::map\<close> iterates: by stream address) and its control list.
\<close>

type_synonym Stream = pointer

record Plane =
  plane_fd :: int
  plane_offset :: nat
  plane_length :: nat

record FrameBuffer =
  fb_addr :: pointer
  fb_planes :: "Plane list"

datatype RequestStatus = RequestPending | RequestComplete | RequestCancelled

record Request =
  req_status :: RequestStatus
  req_sequence :: uint32
  req_sensorTimestamp :: "int64 option"
  req_buffers :: "(Stream \<times> pointer) list"
  req_controls :: ControlList

definition addBuffer :: "Request \<Rightarrow> Stream \<Rightarrow> pointer \<Rightarrow> Request" where
  "addBuffer r st fb =
     (if st \<in> fst ` set (req_buffers r) then r
      else r\<lparr>req_buffers := insort_key fst (st, fb) (req_buffers r)\<rparr>)"

datatype StreamRole = Raw | StillCapture | VideoRecording | Viewfinder

datatype PixelFormat = BGR888 | YUV420 | SBGGR10 | DeviceFormat nat

record StreamConfiguration =
  size_width :: uint32
  size_height :: uint32
  pixelFormat :: PixelFormat
  bufferCount :: nat
  cfg_stream :: Stream

datatype ConfigStatus = Valid | Adjusted | Invalid

text \<open>
  What the camera layer answers is not in the repository: it is a parameter of every
  operation that asks. \<open>None\<close> stands for the failure value of the call (a null
  pointer, a negative return code, \<^verbatim>\<open>MAP_FAILED\<close>).
\<close>

record CameraLayer =
  lc_managerStart :: int
  lc_cameras :: "nat list"
  lc_acquire :: int
  lc_generateConfiguration :: "StreamRole list \<Rightarrow> StreamConfiguration list option"
  lc_validate :: "StreamConfiguration list \<Rightarrow> ConfigStatus \<times> StreamConfiguration list"
  lc_configure :: "StreamConfiguration list \<Rightarrow> StreamConfiguration list option"
  lc_allocate :: "Stream \<Rightarrow> FrameBuffer list option"
  lc_mmap :: "nat \<Rightarrow> int \<Rightarrow> nat \<Rightarrow> pointer option"
  lc_createRequest :: "nat \<Rightarrow> Request option"
  lc_cameraStart :: int
  lc_reuse :: "Request \<Rightarrow> Request"

text \<open>
  The camera object itself, as far as the code drives it: acquired or not, capturing or
  not, the completion signal connected or not, and the requests queued to it. Every
  \<^verbatim>\<open>shared_ptr<Camera>\<close> of the program points to this one object.
\<close>

record Camera =
  cam_acquired :: bool
  cam_capturing :: bool
  cam_connected :: bool
  cam_queue :: "Request list"

section \<open>StreamManager (core/stream_manager.cpp)\<close>

record MappedBuffer =
  mb_data :: pointer
  mb_size :: nat

record StreamManager =
  sm_config :: "StreamConfiguration list option"
  sm_allocator :: "Stream \<rightharpoonup> FrameBuffer list"
  sm_streamTypes :: "Stream \<rightharpoonup> StreamType"
  sm_streamBuffers :: "Stream \<rightharpoonup> pointer list"
  sm_mappedBuffers :: "pointer \<rightharpoonup> MappedBuffer"
  sm_requests :: "Request list"
  sm_jpegWidth :: uint32
  sm_jpegHeight :: uint32

text \<open>
  A newly constructed manager: \<^verbatim>\<open>config_\<close> is a null pointer, the maps and the request
  list are empty.
\<close>

definition StreamManager_new :: StreamManager where
  "StreamManager_new =
     \<lparr>sm_config = None, sm_allocator = Map.empty, sm_streamTypes = Map.empty,
      sm_streamBuffers = Map.empty, sm_mappedBuffers = Map.empty, sm_requests = [],
      sm_jpegWidth = 0, sm_jpegHeight = 0\<rparr>"

text \<open>The first loop of \<^verbatim>\<open>configure\<close>: a role and a configuration per requested stream.\<close>

fun add_user_streams ::
  "StreamConfig list \<Rightarrow> StreamRole list \<times> StreamConfig list \<Rightarrow> StreamRole list \<times> StreamConfig list" where
  "add_user_streams [] acc = acc"
| "add_user_streams (cfg # cfgs) (roles, allConfigs) =
     (case sc_type cfg of
        JPEG \<Rightarrow> add_user_streams cfgs (roles @ [StillCapture], allConfigs @ [cfg])
      | RGB \<Rightarrow> add_user_streams cfgs (roles @ [StillCapture], allConfigs @ [cfg])
      | RAW \<Rightarrow> add_user_streams cfgs (roles, allConfigs))"

definition default_raw :: StreamConfig where
  "default_raw = \<lparr>sc_type = RAW, sc_width = 2304, sc_height = 1296\<rparr>"

definition build_roles ::
  "StreamConfig option \<Rightarrow> StreamConfig list \<Rightarrow> StreamRole list \<times> StreamConfig list" where
  "build_roles rawStream configs =
     add_user_streams configs
       (case rawStream of
          Some r \<Rightarrow> ([Raw], [r])
        | None \<Rightarrow> ([Raw], [default_raw]))"

text \<open>One round of the second loop: the application's wishes written on entry \<open>i\<close>.\<close>

definition configure_stream :: "StreamConfig \<Rightarrow> StreamConfiguration \<Rightarrow> StreamConfiguration" where
  "configure_stream appCfg streamCfg =
     (let c1 = (if sc_width appCfg > 0 then streamCfg\<lparr>size_width := sc_width appCfg\<rparr> else streamCfg);
          c2 = (if sc_height appCfg > 0 then c1\<lparr>size_height := sc_height appCfg\<rparr> else c1);
          c3 = c2\<lparr>bufferCount := 6\<rparr>
      in case sc_type appCfg of
           RGB \<Rightarrow> c3\<lparr>pixelFormat := BGR888\<rparr>
         | JPEG \<Rightarrow> c3\<lparr>pixelFormat := YUV420\<rparr>
         | RAW \<Rightarrow> c3\<lparr>pixelFormat := SBGGR10\<rparr>)"

fun configure_streams ::
  "StreamConfig list \<Rightarrow> nat \<Rightarrow> StreamConfiguration list \<times> uint32 \<times> uint32 \<Rightarrow>
   fault + (StreamConfiguration list \<times> uint32 \<times> uint32)" where
  "configure_streams [] i acc = Inr acc"
| "configure_streams (appCfg # rest) i (cfgs, jw, jh) =
     (if i \<ge> length cfgs then Inl OutOfRange
      else
        (let c = configure_stream appCfg (cfgs ! i);
             jw' = (if sc_type appCfg = JPEG then size_width c else jw);
             jh' = (if sc_type appCfg = JPEG then size_height c else jh)
         in configure_streams rest (Suc i) (cfgs[i := c], jw', jh')))"

text \<open>The last loop: the type of each configured stream, entered under its address.\<close>

fun register_types ::
  "StreamConfig list \<Rightarrow> nat \<Rightarrow> StreamConfiguration list \<Rightarrow> (Stream \<rightharpoonup> StreamType) \<Rightarrow>
   fault + (Stream \<rightharpoonup> StreamType)" where
  "register_types [] i cfgs types = Inr types"
| "register_types (appCfg # rest) i cfgs types =
     (if i \<ge> length cfgs then Inl OutOfRange
      else register_types rest (Suc i) cfgs (types(cfg_stream (cfgs ! i) \<mapsto> sc_type appCfg)))"

definition configure ::
  "CameraLayer \<Rightarrow> StreamManager \<Rightarrow> StreamConfig option \<Rightarrow> StreamConfig list \<Rightarrow>
   fault + (bool \<times> StreamManager)" where
  "configure lc sm rawStream configs =
     (let (roles, allConfigs) = build_roles rawStream configs
      in case lc_generateConfiguration lc roles of
           None \<Rightarrow> Inr (False, sm\<lparr>sm_config := None\<rparr>)
         | Some generated \<Rightarrow>
             (case configure_streams allConfigs 0 (generated, sm_jpegWidth sm, sm_jpegHeight sm) of
                Inl e \<Rightarrow> Inl e
              | Inr (cfgs, jw, jh) \<Rightarrow>
                  (let sm1 = sm\<lparr>sm_streamTypes := Map.empty, sm_jpegWidth := jw, sm_jpegHeight := jh\<rparr>;
                       (status, validated) = lc_validate lc cfgs
                   in if status = Invalid then Inr (False, sm1\<lparr>sm_config := Some validated\<rparr>)
                      else
                        (case lc_configure lc validated of
                           None \<Rightarrow> Inr (False, sm1\<lparr>sm_config := Some validated\<rparr>)
                         | Some applied \<Rightarrow>
                             (case register_types allConfigs 0 applied Map.empty of
                                Inl e \<Rightarrow> Inl e
                              | Inr types \<Rightarrow>
                                  Inr (True, sm1\<lparr>sm_config := Some applied, sm_streamTypes := types\<rparr>))))))"

text \<open>
  \<^verbatim>\<open>mapBuffer\<close>. The byte count is computed in \<^verbatim>\<open>uint32_t\<close> and then widened to
  \<^verbatim>\<open>size_t\<close>.
\<close>

definition mmap_planes ::
  "CameraLayer \<Rightarrow> StreamManager \<Rightarrow> FrameBuffer \<Rightarrow> nat \<Rightarrow> bool \<times> StreamManager" where
  "mmap_planes lc sm buffer totalSize =
     (case fb_planes buffer of
        [] \<Rightarrow> (False, sm)
      | plane0 # others \<Rightarrow>
          (case lc_mmap lc totalSize (plane_fd plane0) (plane_offset plane0) of
             None \<Rightarrow> (False, sm)
           | Some ptr \<Rightarrow>
               (True, sm\<lparr>sm_mappedBuffers :=
                           (sm_mappedBuffers sm)(fb_addr buffer \<mapsto> \<lparr>mb_data = ptr, mb_size = totalSize\<rparr>)\<rparr>)))"

definition mapBuffer ::
  "CameraLayer \<Rightarrow> StreamManager \<Rightarrow> FrameBuffer \<Rightarrow> StreamType \<Rightarrow> uint32 \<Rightarrow> uint32 \<Rightarrow>
   bool \<times> StreamManager" where
  "mapBuffer lc sm buffer ty width height =
     (if ty = RAW then (True, sm)
      else if fb_planes buffer = [] then (False, sm)
      else
        (case ty of
           JPEG \<Rightarrow> mmap_planes lc sm buffer (unat (width * height * 3 div 2))
         | RGB \<Rightarrow> mmap_planes lc sm buffer (unat (width * height * 3))
         | RAW \<Rightarrow> (True, sm)))"

text \<open>
  \<^verbatim>\<open>streamTypes_[stream]\<close>: the subscript of \<^verbatim>\<open>std::map\<close> enters a value-initialised
  type (the first enumerator, \<open>JPEG\<close>) for a stream it does not hold.
\<close>

definition streamTypes_subscript :: "StreamManager \<Rightarrow> Stream \<Rightarrow> StreamType \<times> StreamManager" where
  "streamTypes_subscript sm st =
     (case sm_streamTypes sm st of
        Some ty \<Rightarrow> (ty, sm)
      | None \<Rightarrow> (JPEG, sm\<lparr>sm_streamTypes := (sm_streamTypes sm)(st \<mapsto> JPEG)\<rparr>))"

text \<open>The inner loop of \<^verbatim>\<open>allocateBuffers\<close>: every buffer of one stream.\<close>

fun map_stream_buffers ::
  "CameraLayer \<Rightarrow> Stream \<Rightarrow> uint32 \<Rightarrow> uint32 \<Rightarrow> FrameBuffer list \<Rightarrow> StreamManager \<times> pointer list \<Rightarrow>
   bool \<times> StreamManager \<times> pointer list" where
  "map_stream_buffers lc st w h [] (sm, bufferPtrs) = (True, sm, bufferPtrs)"
| "map_stream_buffers lc st w h (fb # fbs) (sm, bufferPtrs) =
     (let (ty, sm1) = streamTypes_subscript sm st;
          (ok, sm2) = mapBuffer lc sm1 fb ty w h
      in if \<not> ok then (False, sm2, bufferPtrs @ [fb_addr fb])
         else map_stream_buffers lc st w h fbs (sm2, bufferPtrs @ [fb_addr fb]))"

text \<open>The outer loop: every stream of the configuration.\<close>

fun allocate_streams ::
  "CameraLayer \<Rightarrow> StreamConfiguration list \<Rightarrow> StreamManager \<Rightarrow> bool \<times> StreamManager" where
  "allocate_streams lc [] sm = (True, sm)"
| "allocate_streams lc (streamCfg # rest) sm =
     (case lc_allocate lc (cfg_stream streamCfg) of
        None \<Rightarrow> (False, sm)
      | Some buffers \<Rightarrow>
          (let sm1 = sm\<lparr>sm_allocator := (sm_allocator sm)(cfg_stream streamCfg \<mapsto> buffers)\<rparr>;
               (ok, sm2, bufferPtrs) =
                  map_stream_buffers lc (cfg_stream streamCfg)
                    (size_width streamCfg) (size_height streamCfg) buffers (sm1, [])
           in if \<not> ok then (False, sm2)
              else allocate_streams lc rest
                     (sm2\<lparr>sm_streamBuffers := (sm_streamBuffers sm2)(cfg_stream streamCfg \<mapsto> bufferPtrs)\<rparr>)))"

text \<open>
  Request \<open>i\<close> takes buffer \<open>i\<close> of every stream that has one.
  \<^verbatim>\<open>streamBuffers_[stream]\<close> enters an empty vector for a stream it does not hold.
\<close>

fun attach_buffers ::
  "StreamConfiguration list \<Rightarrow> nat \<Rightarrow> StreamManager \<times> Request \<Rightarrow> StreamManager \<times> Request" where
  "attach_buffers [] i (sm, request) = (sm, request)"
| "attach_buffers (streamCfg # rest) i (sm, request) =
     (let st = cfg_stream streamCfg;
          (buffers, sm1) = (case sm_streamBuffers sm st of
                              Some bs \<Rightarrow> (bs, sm)
                            | None \<Rightarrow> ([], sm\<lparr>sm_streamBuffers := (sm_streamBuffers sm)(st \<mapsto> [])\<rparr>))
      in attach_buffers rest i
           (sm1, if i < length buffers then addBuffer request st (buffers ! i) else request))"

definition numRequests :: nat where
  "numRequests = 6"

text \<open>The request loop, over the indices \<open>0, ..., numRequests - 1\<close>.\<close>

fun create_requests ::
  "CameraLayer \<Rightarrow> StreamConfiguration list \<Rightarrow> nat list \<Rightarrow> StreamManager \<Rightarrow> bool \<times> StreamManager" where
  "create_requests lc cfgs [] sm = (True, sm)"
| "create_requests lc cfgs (i # later) sm =
     (case lc_createRequest lc i of
        None \<Rightarrow> (False, sm)
      | Some request \<Rightarrow>
          (let (sm1, request1) = attach_buffers cfgs i (sm, request)
           in create_requests lc cfgs later (sm1\<lparr>sm_requests := sm_requests sm1 @ [request1]\<rparr>)))"

text \<open>
  \<^verbatim>\<open>allocateBuffers\<close>. Both loops iterate over \<^verbatim>\<open>*config_\<close>: the dereference of the
  \<^verbatim>\<open>unique_ptr\<close>, which nothing guards.
\<close>

definition allocateBuffers :: "CameraLayer \<Rightarrow> StreamManager \<Rightarrow> fault + (bool \<times> StreamManager)" where
  "allocateBuffers lc sm =
     (case sm_config sm of
        None \<Rightarrow> Inl NullDereference
      | Some cfgs \<Rightarrow>
          (case allocate_streams lc cfgs sm of
             (False, sm1) \<Rightarrow> Inr (False, sm1)
           | (True, sm1) \<Rightarrow> Inr (create_requests lc cfgs [0..<numRequests] sm1)))"

definition freeBuffers :: "StreamManager \<Rightarrow> StreamManager" where
  "freeBuffers sm =
     sm\<lparr>sm_mappedBuffers := Map.empty,
        sm_allocator := (\<lambda>st. if st \<in> dom (sm_streamBuffers sm) then None else sm_allocator sm st),
        sm_streamBuffers := Map.empty,
        sm_requests := []\<rparr>"

definition queueRequests :: "StreamManager \<Rightarrow> Camera \<Rightarrow> Camera" where
  "queueRequests sm cam = cam\<lparr>cam_queue := cam_queue cam @ sm_requests sm\<rparr>"

definition getStreamType :: "StreamManager \<Rightarrow> Stream \<Rightarrow> StreamType" where
  "getStreamType sm st = (case sm_streamTypes sm st of Some ty \<Rightarrow> ty | None \<Rightarrow> RAW)"

definition getMappedData :: "StreamManager \<Rightarrow> pointer \<Rightarrow> pointer" where
  "getMappedData sm buffer = (case sm_mappedBuffers sm buffer of Some m \<Rightarrow> mb_data m | None \<Rightarrow> 0)"

definition getMappedSize :: "StreamManager \<Rightarrow> pointer \<Rightarrow> nat" where
  "getMappedSize sm buffer = (case sm_mappedBuffers sm buffer of Some m \<Rightarrow> mb_size m | None \<Rightarrow> 0)"

definition getJpegWidth :: "StreamManager \<Rightarrow> uint32" where
  "getJpegWidth sm = sm_jpegWidth sm"

definition getJpegHeight :: "StreamManager \<Rightarrow> uint32" where
  "getJpegHeight sm = sm_jpegHeight sm"

section \<open>The block encoder (TurboJPEG, external)\<close>

text \<open>
  \<open>tj_initCompress\<close>: whether \<^verbatim>\<open>tjInitCompress\<close> returns a handle.
  \<open>tj_bufSizeYUV2 w h\<close> is \<^verbatim>\<open>tjBufSizeYUV2(w, 1, h, TJSAMP_420)\<close>.
  \<open>tj_compressFromYUVPlanes\<close> takes the bytes at the Y plane pointer, the offsets of the
  U and V plane pointers from it, width, strides, height, quality and the capacity
  of the output buffer, and answers the return code and the compressed image it wrote
  at the start of the output buffer (whose length is the \<^verbatim>\<open>jpegSize\<close> it reports).
\<close>

record TurboJpeg =
  tj_initCompress :: bool
  tj_bufSizeYUV2 :: "uint32 \<Rightarrow> uint32 \<Rightarrow> nat"
  tj_compressFromYUVPlanes ::
    "uint8 list \<Rightarrow> nat \<Rightarrow> nat \<Rightarrow> uint32 \<Rightarrow> int list \<Rightarrow> uint32 \<Rightarrow> int32 \<Rightarrow> nat \<Rightarrow> int \<times> uint8 list"

section \<open>JpegEncoder (encoders/jpeg_encoder.cpp)\<close>

text \<open>
  \<open>task_data\<close> is the bytes at \<^verbatim>\<open>Task::data\<close>, the pointer into the vector that
  \<open>task_dataOwner\<close> shares. What the code writes to \<^verbatim>\<open>std::cerr\<close> is not modelled.
\<close>

record Task =
  task_data :: "uint8 list"
  task_width :: uint32
  task_height :: uint32
  task_quality :: int32
  task_timestamp :: uint64
  task_sequence :: uint32
  task_callback :: FrameCallback
  task_dataOwner :: "uint8 list"

record JpegEncoder =
  enc_queue :: "Task list"
  enc_running :: bool
  enc_buffer :: "uint8 list"
  enc_maxQueueSize :: nat

definition JpegEncoder_new :: "nat \<Rightarrow> JpegEncoder" where
  "JpegEncoder_new maxQueueSize =
     \<lparr>enc_queue = [], enc_running = False, enc_buffer = [], enc_maxQueueSize = maxQueueSize\<rparr>"

definition JpegEncoder_start :: "JpegEncoder \<Rightarrow> JpegEncoder" where
  "JpegEncoder_start enc = enc\<lparr>enc_running := True\<rparr>"

text \<open>
  \<^verbatim>\<open>stop\<close> clears the flag, wakes every waiter and joins the worker; the queue is left
  as it stands.
\<close>

definition JpegEncoder_stop :: "JpegEncoder \<Rightarrow> JpegEncoder" where
  "JpegEncoder_stop enc = (if enc_running enc then enc\<lparr>enc_running := False\<rparr> else enc)"

text \<open>
  The copy that opens \<^verbatim>\<open>encode\<close>. \<^verbatim>\<open>width * height * 3 / 2\<close> is computed in
  \<^verbatim>\<open>uint32_t\<close> and widened to \<^verbatim>\<open>size_t\<close>. \<open>yuvData\<close> is the bytes readable at the source
  pointer; reading past them is a fault.
\<close>

definition encode_dataSize :: "uint32 \<Rightarrow> uint32 \<Rightarrow> nat" where
  "encode_dataSize width height = unat (width * height * 3 div 2)"

definition encode_copy :: "uint8 list \<Rightarrow> uint32 \<Rightarrow> uint32 \<Rightarrow> fault + uint8 list" where
  "encode_copy yuvData width height =
     (let dataSize = encode_dataSize width height
      in if length yuvData < dataSize then Inl OutOfRange else Inr (take dataSize yuvData))"

text \<open>
  The section of \<^verbatim>\<open>encode\<close> under the mutex, as one atomic step. \<^verbatim>\<open>cv_.wait(lock, pred)\<close>
  returns only with the predicate true; while it is false the caller stays blocked with
  its task in hand and the encoder unchanged (\<open>Waiting\<close>), and runs the step again
  when it is woken.
\<close>

datatype encode_outcome = Waiting Task | NotRunning | Queued JpegEncoder

definition encode_pred :: "JpegEncoder \<Rightarrow> bool" where
  "encode_pred enc \<longleftrightarrow> length (enc_queue enc) < enc_maxQueueSize enc \<or> \<not> enc_running enc"

definition encode_locked :: "JpegEncoder \<Rightarrow> Task \<Rightarrow> encode_outcome" where
  "encode_locked enc task =
     (if \<not> encode_pred enc then Waiting task
      else if \<not> enc_running enc then NotRunning
      else Queued (enc\<lparr>enc_queue := enc_queue enc @ [task]\<rparr>))"

definition encode ::
  "JpegEncoder \<Rightarrow> uint8 list \<Rightarrow> uint32 \<Rightarrow> uint32 \<Rightarrow> int32 \<Rightarrow> uint64 \<Rightarrow> uint32 \<Rightarrow> FrameCallback \<Rightarrow>
   fault + encode_outcome" where
  "encode enc yuvData width height quality ts seq callback =
     (case encode_copy yuvData width height of
        Inl e \<Rightarrow> Inl e
      | Inr dataCopy \<Rightarrow>
          Inr (encode_locked enc
                 \<lparr>task_data = dataCopy, task_width = width, task_height = height,
                  task_quality = quality, task_timestamp = ts, task_sequence = seq,
                  task_callback = callback, task_dataOwner = dataCopy\<rparr>))"

text \<open>
  The worker, one round of its loop. Under the mutex it waits for a task or for the
  end, and takes the front task (\<open>worker_dequeue\<close>); then, outside the mutex, it
  compresses the task and calls its callback (\<open>process_task\<close>).
\<close>

datatype dequeue_outcome = WorkerWaiting | WorkerExit | Dequeued Task JpegEncoder

definition worker_pred :: "JpegEncoder \<Rightarrow> bool" where
  "worker_pred enc \<longleftrightarrow> enc_queue enc \<noteq> [] \<or> \<not> enc_running enc"

definition worker_dequeue :: "JpegEncoder \<Rightarrow> dequeue_outcome" where
  "worker_dequeue enc =
     (if \<not> enc_running enc then WorkerExit
      else if \<not> worker_pred enc then WorkerWaiting
      else if \<not> enc_running enc then WorkerExit
      else (case enc_queue enc of
              [] \<Rightarrow> WorkerWaiting
            | task # rest \<Rightarrow> Dequeued task (enc\<lparr>enc_queue := rest\<rparr>)))"

text \<open>
  The plane pointers and strides the worker sets up, and its call of the compressor.
  \<^verbatim>\<open>task.width * task.height\<close> is \<^verbatim>\<open>uint32_t\<close> arithmetic; a stride is the width cast to
  \<^verbatim>\<open>int\<close>.
\<close>

definition compress_task :: "TurboJpeg \<Rightarrow> Task \<Rightarrow> nat \<Rightarrow> int \<times> uint8 list" where
  "compress_task tj task maxSize =
     (let area = task_width task * task_height task;
          uOffset = unat area;
          vOffset = unat area + unat (area div 4);
          strides = [sint (task_width task), sint (task_width task div 2),
                     sint (task_width task div 2)]
      in tj_compressFromYUVPlanes tj (task_data task) uOffset vOffset (task_width task)
           strides (task_height task) (task_quality task) maxSize)"

definition process_task ::
  "TurboJpeg \<Rightarrow> JpegEncoder \<Rightarrow> Task \<Rightarrow> fault + (JpegEncoder \<times> event list)" where
  "process_task tj enc task =
     (let maxSize = tj_bufSizeYUV2 tj (task_width task) (task_height task);
          buffer1 = (if length (enc_buffer enc) < maxSize
                     then enc_buffer enc @ replicate (maxSize - length (enc_buffer enc)) 0
                     else enc_buffer enc);
          (result, jpeg) = compress_task tj task maxSize;
          jpegSize = length jpeg
      in if jpegSize > length buffer1 then Inl OutOfRange
         else
           (let buffer2 = jpeg @ drop jpegSize buffer1
            in if result = 0
               then
                 (let bufferCopy = take jpegSize buffer2;
                      frame = \<lparr>data = bufferCopy, timestamp = task_timestamp task,
                               sequence = task_sequence task, owner = Some bufferCopy\<rparr>
                  in Inr (enc\<lparr>enc_buffer := buffer2\<rparr>,
                          [FrameDelivered (task_callback task) JPEG frame]))
               else Inr (enc\<lparr>enc_buffer := buffer2\<rparr>, [])))"

text \<open>
  The worker's answer to \<^verbatim>\<open>notify_all\<close> after a dequeue: every blocked producer wakes and
  runs its step under the mutex again, one after the other in some order (the order of
  the list). Each either stays blocked, returns because the encoder stopped, or enqueues.
  The result is the encoder and the producers still blocked.
\<close>

fun wake_all :: "JpegEncoder \<Rightarrow> Task list \<Rightarrow> JpegEncoder \<times> Task list" where
  "wake_all enc [] = (enc, [])"
| "wake_all enc (task # waiting) =
     (case encode_locked enc task of
        Waiting t \<Rightarrow> (let (enc', still) = wake_all enc waiting in (enc', t # still))
      | NotRunning \<Rightarrow> wake_all enc waiting
      | Queued enc1 \<Rightarrow> wake_all enc1 waiting)"

text \<open>
  The states an encoder passes through: constructed, started and stopped, a producer's
  step that enqueues, and a worker round (dequeue, then the task processed).
\<close>

inductive enc_reachable :: "JpegEncoder \<Rightarrow> bool" where
  enc_new: "enc_reachable (JpegEncoder_new n)"
| enc_start: "enc_reachable enc \<Longrightarrow> enc_reachable (JpegEncoder_start enc)"
| enc_stop: "enc_reachable enc \<Longrightarrow> enc_reachable (JpegEncoder_stop enc)"
| enc_encode: "enc_reachable enc \<Longrightarrow> encode_locked enc task = Queued enc' \<Longrightarrow> enc_reachable enc'"
| enc_dequeue: "enc_reachable enc \<Longrightarrow> worker_dequeue enc = Dequeued task enc' \<Longrightarrow> enc_reachable enc'"
| enc_process: "enc_reachable enc \<Longrightarrow> process_task tj enc task = Inr (enc', events) \<Longrightarrow>
                enc_reachable enc'"

section \<open>CameraManager::Impl (core/camera_manager.cpp)\<close>

record CameraConfig =
  cfg_rawStream :: "StreamConfig option"
  cfg_streams :: "StreamConfig list"
  cfg_initialControls :: Controls
  cfg_jpegEncoderQueueSize :: nat

text \<open>
  \<open>impl_camera\<close> is \<^verbatim>\<open>camera_\<close>: the camera of the manager's list it points to, or
  \<open>None\<close> for a null pointer. \<open>impl_device\<close> is the camera object. The three
  \<^verbatim>\<open>unique_ptr\<close> members are \<open>None\<close> while null.
\<close>

record Impl =
  impl_camera :: "nat option"
  impl_device :: Camera
  impl_streamManager :: "StreamManager option"
  impl_jpegEncoder :: "JpegEncoder option"
  impl_controlManager :: "ControlManager option"
  impl_frameCallback :: FrameCallback
  impl_errorCallback :: ErrorCallback
  impl_initialControls :: Controls
  impl_pendingControls :: "Controls option"
  impl_jpegQuality :: int32
  impl_running :: bool
  impl_lastError :: string

definition Impl_new :: Impl where
  "Impl_new =
     \<lparr>impl_camera = None,
      impl_device = \<lparr>cam_acquired = False, cam_capturing = False, cam_connected = False,
                     cam_queue = []\<rparr>,
      impl_streamManager = None, impl_jpegEncoder = None, impl_controlManager = None,
      impl_frameCallback = 0, impl_errorCallback = 0, impl_initialControls = noControls,
      impl_pendingControls = None, impl_jpegQuality = 85, impl_running = False,
      impl_lastError = []\<rparr>"

definition initialize :: "CameraLayer \<Rightarrow> TurboJpeg \<Rightarrow> Impl \<Rightarrow> CameraConfig \<Rightarrow> fault + (bool \<times> Impl)" where
  "initialize lc tj s config =
     (if lc_managerStart lc < 0
      then Inr (False, s\<lparr>impl_lastError :=
                  ''Failed to start camera manager. Check if camera service is running.''\<rparr>)
      else
        (case lc_cameras lc of
           [] \<Rightarrow> Inr (False, s\<lparr>impl_lastError :=
                   ''No cameras found. Verify camera is connected and drivers are loaded.''\<rparr>)
         | cam # others \<Rightarrow>
             (let s1 = s\<lparr>impl_camera := Some cam\<rparr>
              in if lc_acquire lc \<noteq> 0
                 then Inr (False, s1\<lparr>impl_lastError :=
                         ''Failed to acquire camera. Camera may be in use by another process.''\<rparr>)
                 else
                   (let s2 = s1\<lparr>impl_device := (impl_device s1)\<lparr>cam_acquired := True\<rparr>\<rparr>
                    in case configure lc StreamManager_new (cfg_rawStream config) (cfg_streams config) of
                         Inl e \<Rightarrow> Inl e
                       | Inr (ok, sm) \<Rightarrow>
                           if \<not> ok
                           then Inr (False, s2\<lparr>impl_streamManager := Some sm,
                                   impl_lastError :=
                                     ''Failed to configure streams. Check requested resolutions and formats.''\<rparr>)
                           else if \<not> tj_initCompress tj then Inl RuntimeError
                           else Inr (True, s2\<lparr>impl_streamManager := Some sm,
                                   impl_controlManager := Some ControlManager_new,
                                   impl_jpegEncoder := Some (JpegEncoder_new (cfg_jpegEncoderQueueSize config)),
                                   impl_initialControls := cfg_initialControls config\<rparr>)))))"

text \<open>The defaults \<^verbatim>\<open>start\<close> enters into the initial controls.\<close>

definition with_defaults :: "Controls \<Rightarrow> Controls" where
  "with_defaults c =
     (let c1 = (if targetFps c = None then c\<lparr>targetFps := Some 30\<rparr> else c)
      in if jpegQuality c1 = None then c1\<lparr>jpegQuality := Some 85\<rparr> else c1)"

text \<open>The loop of \<^verbatim>\<open>start\<close> over the requests: the initial controls on each.\<close>

fun apply_initial ::
  "ControlManager option \<Rightarrow> Controls \<Rightarrow> Request list \<Rightarrow> fault + (ControlManager option \<times> Request list)" where
  "apply_initial cmo ic [] = Inr (cmo, [])"
| "apply_initial cmo ic (request # rest) =
     (case cmo of
        None \<Rightarrow> Inl NullDereference
      | Some cm \<Rightarrow>
          (case applyControls cm ic (req_controls request) of
             Inl e \<Rightarrow> Inl e
           | Inr (cm1, rc1) \<Rightarrow>
               (case apply_initial (Some cm1) ic rest of
                  Inl e \<Rightarrow> Inl e
                | Inr (cmo2, rest') \<Rightarrow> Inr (cmo2, request\<lparr>req_controls := rc1\<rparr> # rest'))))"

definition start ::
  "CameraLayer \<Rightarrow> Impl \<Rightarrow> FrameCallback \<Rightarrow> ErrorCallback \<Rightarrow> fault + (bool \<times> Impl \<times> event list)" where
  "start lc s0 frameCallback errorCallback =
     (let s = s0\<lparr>impl_frameCallback := frameCallback, impl_errorCallback := errorCallback\<rparr>
      in case impl_streamManager s of
           None \<Rightarrow> Inl NullDereference
         | Some sm \<Rightarrow>
             (case allocateBuffers lc sm of
                Inl e \<Rightarrow> Inl e
              | Inr (ok, sm1) \<Rightarrow>
                  if \<not> ok
                  then Inr (False, s\<lparr>impl_streamManager := Some sm1\<rparr>,
                            [ErrorReported errorCallback
                               ''Failed to allocate buffers. Insufficient memory or invalid configuration.''])
                  else
                    (case (impl_jpegEncoder s, impl_camera s) of
                       (None, _) \<Rightarrow> Inl NullDereference
                     | (Some enc, None) \<Rightarrow> Inl NullDereference
                     | (Some enc, Some cam) \<Rightarrow>
                         (let s1 = s\<lparr>impl_streamManager := Some sm1,
                                     impl_jpegEncoder := Some (JpegEncoder_start enc),
                                     impl_device := (impl_device s)\<lparr>cam_connected := True\<rparr>,
                                     impl_initialControls := with_defaults (impl_initialControls s)\<rparr>
                          in if lc_cameraStart lc < 0
                             then Inr (False, s1,
                                       [ErrorReported errorCallback
                                          ''Failed to start camera capture. Check camera permissions.''])
                             else
                               (case apply_initial (impl_controlManager s1) (impl_initialControls s1)
                                       (sm_requests sm1) of
                                  Inl e \<Rightarrow> Inl e
                                | Inr (cmo, requests) \<Rightarrow>
                                    (let sm2 = sm1\<lparr>sm_requests := requests\<rparr>;
                                         quality = (case jpegQuality (impl_initialControls s1) of
                                                      Some q \<Rightarrow> q | None \<Rightarrow> 85)
                                     in Inr (True,
                                             s1\<lparr>impl_controlManager := cmo,
                                                impl_streamManager := Some sm2,
                                                impl_jpegQuality := quality,
                                                impl_device :=
                                                  queueRequests sm2
                                                    ((impl_device s1)\<lparr>cam_capturing := True\<rparr>),
                                                impl_running := True\<rparr>,
                                             [])))))))"

text \<open>
  \<^verbatim>\<open>stop\<close>. The camera's own \<^verbatim>\<open>stop\<close> ends the capture and cancels what is queued;
  \<^verbatim>\<open>release\<close> gives the camera up.
\<close>

definition stop :: "Impl \<Rightarrow> fault + Impl" where
  "stop s =
     (if \<not> impl_running s then Inr s
      else
        (case (impl_camera s, impl_jpegEncoder s, impl_streamManager s) of
           (Some cam, Some enc, Some sm) \<Rightarrow>
             Inr (s\<lparr>impl_running := False,
                    impl_device := (impl_device s)\<lparr>cam_connected := False, cam_capturing := False,
                                                   cam_queue := [], cam_acquired := False\<rparr>,
                    impl_jpegEncoder := Some (JpegEncoder_stop enc),
                    impl_streamManager := Some (freeBuffers sm),
                    impl_camera := None\<rparr>)
         | _ \<Rightarrow> Inl NullDereference))"

definition setControls :: "Impl \<Rightarrow> Controls \<Rightarrow> bool \<times> Impl" where
  "setControls s controls =
     (let s1 = (case jpegQuality controls of
                  Some q \<Rightarrow> s\<lparr>impl_jpegQuality := q\<rparr>
                | None \<Rightarrow> s)
      in (True, s1\<lparr>impl_pendingControls := Some controls\<rparr>))"

definition getControls :: "Impl \<Rightarrow> fault + Controls" where
  "getControls s =
     (case impl_controlManager s of
        None \<Rightarrow> Inl NullDereference
      | Some cm \<Rightarrow> Inr (getCurrentControls cm))"

text \<open>The block of \<^verbatim>\<open>requestComplete\<close> under the control mutex.\<close>

definition apply_pending :: "Impl \<Rightarrow> Request \<Rightarrow> fault + (Impl \<times> Request)" where
  "apply_pending s request =
     (case impl_pendingControls s of
        None \<Rightarrow> Inr (s, request)
      | Some controls \<Rightarrow>
          (case impl_controlManager s of
             None \<Rightarrow> Inl NullDereference
           | Some cm \<Rightarrow>
               (case applyControls cm controls (req_controls request) of
                  Inl e \<Rightarrow> Inl e
                | Inr (cm', rc') \<Rightarrow>
                    Inr (s\<lparr>impl_controlManager := Some cm', impl_pendingControls := None\<rparr>,
                         request\<lparr>req_controls := rc'\<rparr>))))"

text \<open>
  The loop over the buffers of the completed request. \<open>mem\<close> gives the bytes readable at
  an address.
\<close>

fun process_buffers ::
  "(pointer \<Rightarrow> uint8 list) \<Rightarrow> Impl \<Rightarrow> uint64 \<Rightarrow> uint32 \<Rightarrow> (Stream \<times> pointer) list \<Rightarrow> fault + event list" where
  "process_buffers mem s ts seq [] = Inr []"
| "process_buffers mem s ts seq ((stream, buffer) # rest) =
     (case impl_streamManager s of
        None \<Rightarrow> Inl NullDereference
      | Some sm \<Rightarrow>
          (let ty = getStreamType sm stream
           in if ty = RAW then process_buffers mem s ts seq rest
              else
                (let dat = getMappedData sm buffer;
                     len = getMappedSize sm buffer
                 in if dat = 0 then process_buffers mem s ts seq rest
                    else if ty = RGB
                    then
                      (case process_buffers mem s ts seq rest of
                         Inl e \<Rightarrow> Inl e
                       | Inr events \<Rightarrow>
                           Inr (FrameDelivered (impl_frameCallback s) RGB
                                  \<lparr>data = take len (mem dat), timestamp = ts, sequence = seq,
                                   owner = None\<rparr> # events))
                    else if ty = JPEG
                    then
                      (case impl_jpegEncoder s of
                         None \<Rightarrow> Inl NullDereference
                       | Some enc \<Rightarrow>
                           (case process_buffers mem s ts seq rest of
                              Inl e \<Rightarrow> Inl e
                            | Inr events \<Rightarrow>
                                Inr (EncodeRequested (mem dat) (getJpegWidth sm) (getJpegHeight sm)
                                       (impl_jpegQuality s) ts seq (impl_frameCallback s) # events)))
                    else process_buffers mem s ts seq rest)))"

definition requestComplete ::
  "CameraLayer \<Rightarrow> (pointer \<Rightarrow> uint8 list) \<Rightarrow> Impl \<Rightarrow> Request \<Rightarrow> fault + (Impl \<times> event list)" where
  "requestComplete lc mem s request =
     (if req_status request = RequestCancelled then Inr (s, [])
      else
        (case apply_pending s request of
           Inl e \<Rightarrow> Inl e
         | Inr (s1, request1) \<Rightarrow>
             (let seq = req_sequence request1;
                  ts = (case req_sensorTimestamp request1 of Some t \<Rightarrow> t | None \<Rightarrow> 0)
              in case process_buffers mem s1 ts seq (req_buffers request1) of
                   Inl e \<Rightarrow> Inl e
                 | Inr events \<Rightarrow>
                     (case impl_camera s1 of
                        None \<Rightarrow> Inl NullDereference
                      | Some cam \<Rightarrow>
                          Inr (s1\<lparr>impl_device :=
                                   (impl_device s1)\<lparr>cam_queue :=
                                      cam_queue (impl_device s1) @ [lc_reuse lc request1]\<rparr>\<rparr>,
                               events)))))"

text \<open>
  The states of the orchestrator: constructed, and then whatever the public operations
  and the completion handler leave when they return.
\<close>

inductive reachable :: "Impl \<Rightarrow> bool" where
  r_new: "reachable Impl_new"
| r_initialize: "reachable s \<Longrightarrow> initialize lc tj s config = Inr (ok, s') \<Longrightarrow> reachable s'"
| r_start: "reachable s \<Longrightarrow> start lc s frameCallback errorCallback = Inr (ok, s', events) \<Longrightarrow>
            reachable s'"
| r_stop: "reachable s \<Longrightarrow> stop s = Inr s' \<Longrightarrow> reachable s'"
| r_setControls: "reachable s \<Longrightarrow> reachable (snd (setControls s controls))"
| r_requestComplete: "reachable s \<Longrightarrow> requestComplete lc mem s request = Inr (s', events) \<Longrightarrow>
                      reachable s'"

section \<open>The controls object of the binding (node_binding.cpp)\<close>

text \<open>
  The colour-gains lines of \<^verbatim>\<open>parseControls\<close>: \<open>None\<close> when the object has no
  \<^verbatim>\<open>colourGains\<close> key, else the array under it.
\<close>

definition parseColourGains :: "float32 list option \<Rightarrow> float_array2 option" where
  "parseColourGains entry =
     (case entry of
        None \<Rightarrow> None
      | Some gains \<Rightarrow> if length gains \<ge> 2 then Some (gains ! 0, gains ! 1) else None)"

section \<open>A camera layer to run the model on\<close>

text \<open>
  One camera; every role gets the device's default configuration; validation accepts;
  applying a configuration gives entry \<open>i\<close> the stream at address \<open>100 + i\<close>; every
  stream gets one single-plane buffer at ten times its address; every mapping succeeds.
  \<^verbatim>\<open>reuse\<close> resets status, metadata and controls of a request and keeps its buffers.
\<close>

definition demo_configuration :: StreamConfiguration where
  "demo_configuration =
     \<lparr>size_width = 640, size_height = 480, pixelFormat = DeviceFormat 0, bufferCount = 4,
      cfg_stream = 0\<rparr>"

definition demo_request :: Request where
  "demo_request =
     \<lparr>req_status = RequestPending, req_sequence = 0, req_sensorTimestamp = None,
      req_buffers = [], req_controls = Map.empty\<rparr>"

definition demo_layer :: CameraLayer where
  "demo_layer =
     \<lparr>lc_managerStart = 0, lc_cameras = [0], lc_acquire = 0,
      lc_generateConfiguration = (\<lambda>roles. Some (map (\<lambda>r. demo_configuration) roles)),
      lc_validate = (\<lambda>cfgs. (Valid, cfgs)),
      lc_configure = (\<lambda>cfgs. Some (map (\<lambda>(i, c). c\<lparr>cfg_stream := 100 + i\<rparr>) (enumerate 0 cfgs))),
      lc_allocate = (\<lambda>st. Some [\<lparr>fb_addr = 10 * st,
                                   fb_planes = [\<lparr>plane_fd = int st, plane_offset = 0,
                                                 plane_length = 4096\<rparr>]\<rparr>]),
      lc_mmap = (\<lambda>len fd off. Some (5000 + nat fd)),
      lc_createRequest = (\<lambda>i. Some demo_request),
      lc_cameraStart = 0,
      lc_reuse = (\<lambda>r. r\<lparr>req_status := RequestPending, req_sensorTimestamp := None,
                          req_controls := Map.empty\<rparr>)\<rparr>"

text \<open>A compressor that always succeeds with a four-byte image.\<close>

definition demo_tj :: TurboJpeg where
  "demo_tj =
     \<lparr>tj_initCompress = True,
      tj_bufSizeYUV2 = (\<lambda>w h. 2048 + unat w * unat h * 2),
      tj_compressFromYUVPlanes = (\<lambda>d u v w strides h q cap. (0, [0xFF, 0xD8, 0xFF, 0xD9]))\<rparr>"

definition demo_raw :: StreamConfig where
  "demo_raw = \<lparr>sc_type = RAW, sc_width = 2304, sc_height = 1296\<rparr>"

definition demo_rgb :: StreamConfig where
  "demo_rgb = \<lparr>sc_type = RGB, sc_width = 1280, sc_height = 720\<rparr>"

definition demo_config :: CameraConfig where
  "demo_config =
     \<lparr>cfg_rawStream = Some demo_raw, cfg_streams = [demo_rgb], cfg_initialControls = noControls,
      cfg_jpegEncoderQueueSize = 33\<rparr>"

definition demo_task :: "uint32 \<Rightarrow> Task" where
  "demo_task i =
     \<lparr>task_data = [], task_width = 0, task_height = 0, task_quality = 85, task_timestamp = 0,
      task_sequence = i, task_callback = 1, task_dataOwner = []\<rparr>"

section \<open>Properties of ControlManager\<close>

lemma assignIfSet_simps:
  "assignIfSet t None = t" "assignIfSet t (Some v) = Some v"
  by (simp_all add: assignIfSet_def)

lemma apply_exposureMode_simps [simp]:
  "pending (apply_exposureMode t) = pending t"
  "current (apply_exposureMode t) =
     (current t)\<lparr>exposureMode := assignIfSet (exposureMode (current t)) (exposureMode (pending t))\<rparr>"
  "reqControls (apply_exposureMode t) k =
     (if k = AeExposureMode
      then (case exposureMode (pending t) of None \<Rightarrow> reqControls t k | Some v \<Rightarrow> Some (Int32Value v))
      else reqControls t k)"
  by (simp_all add: apply_exposureMode_def ctl_set_def assignIfSet_def split: option.split)

lemma apply_exposureTime_simps [simp]:
  "pending (apply_exposureTime t) = pending t"
  "current (apply_exposureTime t) =
     (current t)\<lparr>exposureTime := assignIfSet (exposureTime (current t)) (exposureTime (pending t))\<rparr>"
  "reqControls (apply_exposureTime t) k =
     (if k = ExposureTime
      then (case exposureTime (pending t) of None \<Rightarrow> reqControls t k | Some v \<Rightarrow> Some (Int32Value v))
      else reqControls t k)"
  by (simp_all add: apply_exposureTime_def ctl_set_def assignIfSet_def split: option.split)

lemma apply_analogueGain_simps [simp]:
  "pending (apply_analogueGain t) = pending t"
  "current (apply_analogueGain t) =
     (current t)\<lparr>analogueGain := assignIfSet (analogueGain (current t)) (analogueGain (pending t))\<rparr>"
  "reqControls (apply_analogueGain t) k =
     (if k = AnalogueGain
      then (case analogueGain (pending t) of None \<Rightarrow> reqControls t k | Some v \<Rightarrow> Some (FloatValue v))
      else reqControls t k)"
  by (simp_all add: apply_analogueGain_def ctl_set_def assignIfSet_def split: option.split)

lemma apply_afMode_simps [simp]:
  "pending (apply_afMode t) = pending t"
  "current (apply_afMode t) =
     (current t)\<lparr>afMode := assignIfSet (afMode (current t)) (afMode (pending t))\<rparr>"
  "reqControls (apply_afMode t) k =
     (if k = AfMode
      then (case afMode (pending t) of None \<Rightarrow> reqControls t k | Some v \<Rightarrow> Some (Int32Value v))
      else reqControls t k)"
  by (simp_all add: apply_afMode_def ctl_set_def assignIfSet_def split: option.split)

lemma apply_lensPosition_simps [simp]:
  "pending (apply_lensPosition t) = pending t"
  "current (apply_lensPosition t) =
     (current t)\<lparr>lensPosition := assignIfSet (lensPosition (current t)) (lensPosition (pending t))\<rparr>"
  "reqControls (apply_lensPosition t) k =
     (if k = LensPosition
      then (case lensPosition (pending t) of None \<Rightarrow> reqControls t k | Some v \<Rightarrow> Some (FloatValue v))
      else reqControls t k)"
  by (simp_all add: apply_lensPosition_def ctl_set_def assignIfSet_def split: option.split)

lemma apply_awbMode_simps [simp]:
  "pending (apply_awbMode t) = pending t"
  "current (apply_awbMode t) =
     (current t)\<lparr>awbMode := assignIfSet (awbMode (current t)) (awbMode (pending t))\<rparr>"
  "reqControls (apply_awbMode t) k =
     (if k = AwbMode
      then (case awbMode (pending t) of None \<Rightarrow> reqControls t k | Some v \<Rightarrow> Some (Int32Value v))
      else reqControls t k)"
  by (simp_all add: apply_awbMode_def ctl_set_def assignIfSet_def split: option.split)

lemma apply_brightness_simps [simp]:
  "pending (apply_brightness t) = pending t"
  "current (apply_brightness t) =
     (current t)\<lparr>brightness := assignIfSet (brightness (current t)) (brightness (pending t))\<rparr>"
  "reqControls (apply_brightness t) k =
     (if k = Brightness
      then (case brightness (pending t) of None \<Rightarrow> reqControls t k | Some v \<Rightarrow> Some (FloatValue v))
      else reqControls t k)"
  by (simp_all add: apply_brightness_def ctl_set_def assignIfSet_def split: option.split)

lemma apply_contrast_simps [simp]:
  "pending (apply_contrast t) = pending t"
  "current (apply_contrast t) =
     (current t)\<lparr>contrast := assignIfSet (contrast (current t)) (contrast (pending t))\<rparr>"
  "reqControls (apply_contrast t) k =
     (if k = Contrast
      then (case contrast (pending t) of None \<Rightarrow> reqControls t k | Some v \<Rightarrow> Some (FloatValue v))
      else reqControls t k)"
  by (simp_all add: apply_contrast_def ctl_set_def assignIfSet_def split: option.split)

lemma apply_saturation_simps [simp]:
  "pending (apply_saturation t) = pending t"
  "current (apply_saturation t) =
     (current t)\<lparr>saturation := assignIfSet (saturation (current t)) (saturation (pending t))\<rparr>"
  "reqControls (apply_saturation t) k =
     (if k = Saturation
      then (case saturation (pending t) of None \<Rightarrow> reqControls t k | Some v \<Rightarrow> Some (FloatValue v))
      else reqControls t k)"
  by (simp_all add: apply_saturation_def ctl_set_def assignIfSet_def split: option.split)

lemma apply_sharpness_simps [simp]:
  "pending (apply_sharpness t) = pending t"
  "current (apply_sharpness t) =
     (current t)\<lparr>sharpness := assignIfSet (sharpness (current t)) (sharpness (pending t))\<rparr>"
  "reqControls (apply_sharpness t) k =
     (if k = Sharpness
      then (case sharpness (pending t) of None \<Rightarrow> reqControls t k | Some v \<Rightarrow> Some (FloatValue v))
      else reqControls t k)"
  by (simp_all add: apply_sharpness_def ctl_set_def assignIfSet_def split: option.split)

lemma apply_afTrigger_simps [simp]:
  "pending (apply_afTrigger t) = (pending t)\<lparr>afTrigger := None\<rparr>"
  "current (apply_afTrigger t) = current t"
  "reqControls (apply_afTrigger t) k =
     (if k = AfTrigger
      then (case afTrigger (pending t) of None \<Rightarrow> reqControls t k | Some v \<Rightarrow> Some (Int32Value v))
      else reqControls t k)"
  by (simp_all add: apply_afTrigger_def ctl_set_def split: option.split)

lemma apply_colourGains_simps [simp]:
  "pending (apply_colourGains t) = pending t"
  "current (apply_colourGains t) =
     (current t)\<lparr>colourGains := assignIfSet (colourGains (current t)) (colourGains (pending t))\<rparr>"
  "reqControls (apply_colourGains t) k =
     (if k = ColourGains
      then (case colourGains (pending t) of
              None \<Rightarrow> reqControls t k
            | Some g \<Rightarrow> Some (FloatSpan [fst g, snd g]))
      else reqControls t k)"
  by (simp_all add: apply_colourGains_def ctl_set_def assignIfSet_def array2_size_def
      array2_data_def split: option.split)

lemma apply_jpegQuality_simps [simp]:
  "pending (apply_jpegQuality t) = pending t"
  "current (apply_jpegQuality t) =
     (current t)\<lparr>jpegQuality := assignIfSet (jpegQuality (current t)) (jpegQuality (pending t))\<rparr>"
  "reqControls (apply_jpegQuality t) = reqControls t"
  by (simp_all add: apply_jpegQuality_def assignIfSet_def split: option.split)

lemma int32_div_million:
  "int32_div 1000000 fps =
     (if fps = 0 then Inl DivideByZero else Inr (word_of_int (1000000 sdiv sint fps)))"
  by (simp add: int32_div_def)

text \<open>The frame duration the target-fps block computes, for a divisor that is not zero.\<close>

lemma apply_targetFps_None:
  "targetFps (pending t) = None \<Longrightarrow> apply_targetFps t = Inr t"
  by (simp add: apply_targetFps_def)

lemma apply_targetFps_zero:
  "targetFps (pending t) = Some 0 \<Longrightarrow> apply_targetFps t = Inl DivideByZero"
  by (simp add: apply_targetFps_def int32_div_million)

lemma apply_targetFps_Some:
  "targetFps (pending t) = Some fps \<Longrightarrow> fps \<noteq> 0 \<Longrightarrow>
   apply_targetFps t =
     Inr (t\<lparr>reqControls := (reqControls t)(FrameDurationLimits \<mapsto>
                 Int64Span [scast (word_of_int (1000000 sdiv sint fps) :: int32),
                            scast (word_of_int (1000000 sdiv sint fps) :: int32)]),
            current := (current t)\<lparr>targetFps := Some fps\<rparr>\<rparr>)"
  by (simp add: apply_targetFps_def int32_div_million ctl_set_def)

lemma apply_targetFps_Inr:
  assumes "apply_targetFps t = Inr t'"
  shows "pending t' = pending t"
    and "current t' = (current t)\<lparr>targetFps := assignIfSet (targetFps (current t)) (targetFps (pending t))\<rparr>"
    and "k \<noteq> FrameDurationLimits \<Longrightarrow> reqControls t' k = reqControls t k"
    and "targetFps (pending t) = None \<Longrightarrow> reqControls t' = reqControls t"
    and "targetFps (pending t) \<noteq> Some 0"
  using assms
  by (auto simp: apply_targetFps_def int32_div_million ctl_set_def assignIfSet_def
      split: option.splits if_splits)

lemma apply_upto_sharpness_pending [simp]:
  "pending (apply_upto_sharpness t) = (pending t)\<lparr>afTrigger := None\<rparr>"
  by (simp add: apply_upto_sharpness_def Let_def)

lemma apply_upto_sharpness_req_afTrigger:
  "reqControls (apply_upto_sharpness t) AfTrigger =
     (case afTrigger (pending t) of None \<Rightarrow> reqControls t AfTrigger | Some v \<Rightarrow> Some (Int32Value v))"
  by (simp add: apply_upto_sharpness_def Let_def cong: option.case_cong)

lemma apply_upto_sharpness_req_colourGains:
  "reqControls (apply_upto_sharpness t) ColourGains =
     (case colourGains (pending t) of
        None \<Rightarrow> reqControls t ColourGains
      | Some g \<Rightarrow> Some (FloatSpan [fst g, snd g]))"
  by (simp add: apply_upto_sharpness_def Let_def cong: option.case_cong)

lemma apply_upto_sharpness_req_frameDuration:
  "reqControls (apply_upto_sharpness t) FrameDurationLimits = reqControls t FrameDurationLimits"
  by (simp add: apply_upto_sharpness_def Let_def)

lemma apply_upto_sharpness_current:
  "colourGains (current (apply_upto_sharpness t)) =
     assignIfSet (colourGains (current t)) (colourGains (pending t))"
  "jpegQuality (current (apply_upto_sharpness t)) = jpegQuality (current t)"
  "targetFps (current (apply_upto_sharpness t)) = targetFps (current t)"
  "afTrigger (current (apply_upto_sharpness t)) = afTrigger (current t)"
  by (simp_all add: apply_upto_sharpness_def Let_def)

text \<open>Neither the jpeg-quality of pending nor that of current reaches the request.\<close>

lemma apply_upto_sharpness_req_jpegQuality:
  "reqControls (apply_upto_sharpness (t\<lparr>pending := (pending t)\<lparr>jpegQuality := q\<rparr>\<rparr>)) =
   reqControls (apply_upto_sharpness t)"
  by (rule ext) (simp add: apply_upto_sharpness_def Let_def cong: option.case_cong)

lemma applyControls_Inr:
  assumes "applyControls cm c rc = Inr (cm', rc')"
  shows "cm_pendingControls cm' = (mergeControls (cm_pendingControls cm) c)\<lparr>afTrigger := None\<rparr>"
    and "rc' AfTrigger =
           (case afTrigger (mergeControls (cm_pendingControls cm) c) of
              None \<Rightarrow> rc AfTrigger | Some v \<Rightarrow> Some (Int32Value v))"
    and "rc' ColourGains =
           (case colourGains (mergeControls (cm_pendingControls cm) c) of
              None \<Rightarrow> rc ColourGains | Some g \<Rightarrow> Some (FloatSpan [fst g, snd g]))"
    and "colourGains (cm_currentControls cm') =
           assignIfSet (colourGains (cm_currentControls cm))
             (colourGains (mergeControls (cm_pendingControls cm) c))"
    and "jpegQuality (cm_currentControls cm') =
           assignIfSet (jpegQuality (cm_currentControls cm))
             (jpegQuality (mergeControls (cm_pendingControls cm) c))"
    and "afTrigger (cm_currentControls cm') = afTrigger (cm_currentControls cm)"
    and "targetFps (mergeControls (cm_pendingControls cm) c) \<noteq> Some 0"
proof -
  define t0 where "t0 = \<lparr>pending = mergeControls (cm_pendingControls cm) c,
                current = cm_currentControls cm, reqControls = rc\<rparr>"
  obtain t13 where fps: "apply_targetFps (apply_upto_sharpness t0) = Inr t13"
    and cm': "cm' = cm\<lparr>cm_pendingControls := pending (apply_jpegQuality t13),
                       cm_currentControls := current (apply_jpegQuality t13)\<rparr>"
    and rc': "rc' = reqControls (apply_jpegQuality t13)"
    using assms by (auto simp: applyControls_def Let_def t0_def split: sum.splits)
  note f = apply_targetFps_Inr [OF fps]
  show "cm_pendingControls cm' = (mergeControls (cm_pendingControls cm) c)\<lparr>afTrigger := None\<rparr>"
    by (simp add: cm' f(1) t0_def)
  show "rc' AfTrigger =
           (case afTrigger (mergeControls (cm_pendingControls cm) c) of
              None \<Rightarrow> rc AfTrigger | Some v \<Rightarrow> Some (Int32Value v))"
    by (simp add: rc' f(3) apply_upto_sharpness_req_afTrigger t0_def cong: option.case_cong)
  show "rc' ColourGains =
           (case colourGains (mergeControls (cm_pendingControls cm) c) of
              None \<Rightarrow> rc ColourGains | Some g \<Rightarrow> Some (FloatSpan [fst g, snd g]))"
    by (simp add: rc' f(3) apply_upto_sharpness_req_colourGains t0_def cong: option.case_cong)
  show "colourGains (cm_currentControls cm') =
           assignIfSet (colourGains (cm_currentControls cm))
             (colourGains (mergeControls (cm_pendingControls cm) c))"
    by (simp add: cm' f(1,2) apply_upto_sharpness_current t0_def)
  show "jpegQuality (cm_currentControls cm') =
           assignIfSet (jpegQuality (cm_currentControls cm))
             (jpegQuality (mergeControls (cm_pendingControls cm) c))"
    by (simp add: cm' f(1,2) apply_upto_sharpness_current t0_def)
  show "afTrigger (cm_currentControls cm') = afTrigger (cm_currentControls cm)"
    by (simp add: cm' f(1,2) apply_upto_sharpness_current t0_def)
  show "targetFps (mergeControls (cm_pendingControls cm) c) \<noteq> Some 0"
    using f(5) by (simp add: t0_def)
qed

lemma applyControls_returns:
  assumes "targetFps (mergeControls (cm_pendingControls cm) c) \<noteq> Some 0"
  shows "\<exists>cm' rc'. applyControls cm c rc = Inr (cm', rc')"
proof (cases "targetFps (mergeControls (cm_pendingControls cm) c)")
  case None
  then show ?thesis
    by (simp add: applyControls_def Let_def apply_targetFps_None)
next
  case (Some fps)
  with assms have "fps \<noteq> 0" by auto
  with Some show ?thesis
    by (simp add: applyControls_def Let_def apply_targetFps_Some)
qed

lemma applyControls_frameDuration:
  assumes "targetFps (mergeControls (cm_pendingControls cm) c) = Some fps" and "fps \<noteq> 0"
  shows "\<exists>cm' rc'. applyControls cm c rc = Inr (cm', rc') \<and>
           rc' FrameDurationLimits =
             Some (Int64Span [scast (word_of_int (1000000 sdiv sint fps) :: int32),
                              scast (word_of_int (1000000 sdiv sint fps) :: int32)])"
  using assms by (simp add: applyControls_def Let_def apply_targetFps_Some)

lemma frame_duration_positive:
  assumes "0 < sint (fps :: int32)"
  shows "sint (scast (word_of_int (1000000 sdiv sint fps) :: int32) :: int64) = 1000000 div sint fps"
proof -
  have eq: "(1000000::int) sdiv sint fps = 1000000 div sint fps"
    using assms by (simp add: signed_divide_int_def)
  have lo: "0 \<le> (1000000::int) div sint fps"
    using assms by (simp add: pos_imp_zdiv_nonneg_iff)
  have hi: "(1000000::int) div sint fps \<le> 1000000"
    using assms by (simp add: int_div_le_self)
  show ?thesis
    unfolding eq using lo hi
    by (simp add: sint_up_scast is_up sint_sbintrunc' signed_take_bit_int_eq_self)
qed

lemma applyControls_seq_length:
  "applyControls_seq cm calls = Inr (cm', rcs) \<Longrightarrow> length rcs = length calls"
  by (induction calls arbitrary: cm cm' rcs) (auto split: sum.splits prod.splits)

lemma applyControls_seq_pending:
  "applyControls_seq cm calls = Inr (cm', rcs) \<Longrightarrow> calls \<noteq> [] \<Longrightarrow>
   afTrigger (cm_pendingControls cm') = None"
proof (induction calls arbitrary: cm cm' rcs)
  case Nil
  then show ?case by simp
next
  case (Cons call calls)
  obtain c rc where call: "call = (c, rc)" by (cases call)
  from Cons.prems(1) obtain cm1 rc1 rcs1 where
    one: "applyControls cm c rc = Inr (cm1, rc1)" and
    rest: "applyControls_seq cm1 calls = Inr (cm', rcs1)"
    by (auto simp: call split: sum.splits prod.splits)
  show ?case
  proof (cases "calls = []")
    case True
    with rest have "cm' = cm1" by simp
    with applyControls_Inr(1) [OF one] show ?thesis by simp
  next
    case False
    from Cons.IH [OF rest False] show ?thesis .
  qed
qed

lemma applyControls_seq_afTrigger:
  "applyControls_seq cm calls = Inr (cm', rcs) \<Longrightarrow> i < length calls \<Longrightarrow>
   calls ! i = (c, rc) \<Longrightarrow> 0 < i \<or> afTrigger (cm_pendingControls cm) = None \<Longrightarrow>
   (rcs ! i) AfTrigger = (case afTrigger c of None \<Rightarrow> rc AfTrigger | Some v \<Rightarrow> Some (Int32Value v))"
proof (induction calls arbitrary: cm cm' rcs i)
  case Nil
  then show ?case by simp
next
  case (Cons call calls)
  obtain c0 rc0 where call: "call = (c0, rc0)" by (cases call)
  from Cons.prems(1) obtain cm1 rc1 rcs1 where
    one: "applyControls cm c0 rc0 = Inr (cm1, rc1)" and
    rest: "applyControls_seq cm1 calls = Inr (cm', rcs1)" and
    rcs: "rcs = rc1 # rcs1"
    by (auto simp: call split: sum.splits prod.splits)
  have p1: "afTrigger (cm_pendingControls cm1) = None"
    using applyControls_Inr(1) [OF one] by simp
  show ?case
  proof (cases i)
    case 0
    with Cons.prems(3,4) call have "c = c0" "rc = rc0" and none: "afTrigger (cm_pendingControls cm) = None"
      by auto
    then show ?thesis
      using applyControls_Inr(2) [OF one] 0 rcs none
      by (simp add: mergeControls_def assignIfSet_def split: option.splits)
  next
    case (Suc j)
    with Cons.prems(2,3) have j: "j < length calls" "calls ! j = (c, rc)" by auto
    from Cons.IH [OF rest j] p1 show ?thesis by (simp add: Suc rcs)
  qed
qed

lemma mergeControls_targetFps [simp]:
  "targetFps (mergeControls p c) = assignIfSet (targetFps p) (targetFps c)"
  by (simp add: mergeControls_def)

lemma mergeControls_afTrigger [simp]:
  "afTrigger (mergeControls p c) = assignIfSet (afTrigger p) (afTrigger c)"
  by (simp add: mergeControls_def)

lemma applyControls_seq_returns:
  "targetFps (cm_pendingControls cm) \<noteq> Some 0 \<Longrightarrow>
   list_all (\<lambda>call. targetFps (fst call) \<noteq> Some 0) calls \<Longrightarrow>
   \<exists>cm' rcs. applyControls_seq cm calls = Inr (cm', rcs)"
proof (induction calls arbitrary: cm)
  case Nil
  then show ?case by simp
next
  case (Cons call calls)
  obtain c rc where call: "call = (c, rc)" by (cases call)
  from Cons.prems call have nz: "targetFps (mergeControls (cm_pendingControls cm) c) \<noteq> Some 0"
    by (auto simp: assignIfSet_def split: option.splits)
  from applyControls_returns [OF nz, of rc]
  obtain cm1 rc1 where one: "applyControls cm c rc = Inr (cm1, rc1)" by blast
  from applyControls_Inr(1) [OF one] nz
  have "targetFps (cm_pendingControls cm1) \<noteq> Some 0" by simp
  from Cons.IH [OF this] Cons.prems(2)
  obtain cm' rcs where "applyControls_seq cm1 calls = Inr (cm', rcs)" by auto
  with one call show ?case by simp
qed

lemma apply_exposureMode_quality:
  "apply_exposureMode (set_pending_quality z t) = set_pending_quality z (apply_exposureMode t)"
  by (simp add: apply_exposureMode_def set_pending_quality_def split: option.split)

lemma apply_exposureTime_quality:
  "apply_exposureTime (set_pending_quality z t) = set_pending_quality z (apply_exposureTime t)"
  by (simp add: apply_exposureTime_def set_pending_quality_def split: option.split)

lemma apply_analogueGain_quality:
  "apply_analogueGain (set_pending_quality z t) = set_pending_quality z (apply_analogueGain t)"
  by (simp add: apply_analogueGain_def set_pending_quality_def split: option.split)

lemma apply_afMode_quality:
  "apply_afMode (set_pending_quality z t) = set_pending_quality z (apply_afMode t)"
  by (simp add: apply_afMode_def set_pending_quality_def split: option.split)

lemma apply_afTrigger_quality:
  "apply_afTrigger (set_pending_quality z t) = set_pending_quality z (apply_afTrigger t)"
  by (simp add: apply_afTrigger_def set_pending_quality_def split: option.split)

lemma apply_lensPosition_quality:
  "apply_lensPosition (set_pending_quality z t) = set_pending_quality z (apply_lensPosition t)"
  by (simp add: apply_lensPosition_def set_pending_quality_def split: option.split)

lemma apply_awbMode_quality:
  "apply_awbMode (set_pending_quality z t) = set_pending_quality z (apply_awbMode t)"
  by (simp add: apply_awbMode_def set_pending_quality_def split: option.split)

lemma apply_colourGains_quality:
  "apply_colourGains (set_pending_quality z t) = set_pending_quality z (apply_colourGains t)"
  by (simp add: apply_colourGains_def set_pending_quality_def array2_size_def split: option.split)

lemma apply_brightness_quality:
  "apply_brightness (set_pending_quality z t) = set_pending_quality z (apply_brightness t)"
  by (simp add: apply_brightness_def set_pending_quality_def split: option.split)

lemma apply_contrast_quality:
  "apply_contrast (set_pending_quality z t) = set_pending_quality z (apply_contrast t)"
  by (simp add: apply_contrast_def set_pending_quality_def split: option.split)

lemma apply_saturation_quality:
  "apply_saturation (set_pending_quality z t) = set_pending_quality z (apply_saturation t)"
  by (simp add: apply_saturation_def set_pending_quality_def split: option.split)

lemma apply_sharpness_quality:
  "apply_sharpness (set_pending_quality z t) = set_pending_quality z (apply_sharpness t)"
  by (simp add: apply_sharpness_def set_pending_quality_def split: option.split)

lemma apply_upto_sharpness_quality:
  "apply_upto_sharpness (set_pending_quality z t) = set_pending_quality z (apply_upto_sharpness t)"
  by (simp only: apply_upto_sharpness_def Let_def apply_exposureMode_quality apply_exposureTime_quality apply_analogueGain_quality apply_afMode_quality apply_afTrigger_quality apply_lensPosition_quality apply_awbMode_quality apply_colourGains_quality apply_brightness_quality apply_contrast_quality apply_saturation_quality apply_sharpness_quality)

lemma apply_targetFps_quality:
  "apply_targetFps (set_pending_quality z t) = map_sum id (set_pending_quality z) (apply_targetFps t)"
  by (simp add: apply_targetFps_def set_pending_quality_def split: option.split sum.split)

lemma reqControls_set_pending_quality [simp]:
  "reqControls (set_pending_quality z t) = reqControls t"
  by (simp add: set_pending_quality_def)

lemma mergeControls_quality:
  "mergeControls (p\<lparr>jpegQuality := x\<rparr>) (c\<lparr>jpegQuality := y\<rparr>) =
   (mergeControls p c)\<lparr>jpegQuality := assignIfSet x y\<rparr>"
  by (simp add: mergeControls_def)

lemma applyControls_req_quality:
  assumes "applyControls cm c rc = Inr (cm', rc')"
  shows "\<exists>cm''. applyControls (cm\<lparr>cm_pendingControls := (cm_pendingControls cm)\<lparr>jpegQuality := x\<rparr>\<rparr>)
            (c\<lparr>jpegQuality := y\<rparr>) rc = Inr (cm'', rc')"
proof -
  define t0 where "t0 = \<lparr>pending = mergeControls (cm_pendingControls cm) c,
                current = cm_currentControls cm, reqControls = rc\<rparr>"
  have t0': "\<lparr>pending = mergeControls ((cm_pendingControls cm)\<lparr>jpegQuality := x\<rparr>) (c\<lparr>jpegQuality := y\<rparr>),
              current = cm_currentControls cm, reqControls = rc\<rparr>
            = set_pending_quality (assignIfSet x y) t0"
    by (simp add: t0_def set_pending_quality_def mergeControls_quality)
  obtain t13 where fps: "apply_targetFps (apply_upto_sharpness t0) = Inr t13"
    and rc': "rc' = reqControls (apply_jpegQuality t13)"
    using assms by (auto simp: applyControls_def Let_def t0_def split: sum.splits)
  show ?thesis
    by (simp add: applyControls_def Let_def t0' apply_upto_sharpness_quality
        apply_targetFps_quality fps rc')
qed

lemma mergeControls_colourGains [simp]:
  "colourGains (mergeControls p c) = assignIfSet (colourGains p) (colourGains c)"
  by (simp add: mergeControls_def)

lemma mergeControls_jpegQuality [simp]:
  "jpegQuality (mergeControls p c) = assignIfSet (jpegQuality p) (jpegQuality c)"
  by (simp add: mergeControls_def)

lemma parseColourGains_short:
  "length gains < 2 \<Longrightarrow> parseColourGains (Some gains) = None"
  by (simp add: parseColourGains_def)

lemma parseColourGains_long:
  "2 \<le> length gains \<Longrightarrow> parseColourGains (Some gains) = Some (gains ! 0, gains ! 1)"
  by (simp add: parseColourGains_def)

section \<open>The claims about ControlManager\<close>

text \<open>
  Claim C5. For every positive target-fps value pending in \<^verbatim>\<open>applyControls\<close>, the call
  returns and the frame-duration limit it writes to the request is the pair \<open>[d, d]\<close> with
  \<open>d = 1000000 div fps\<close> microseconds; for \<open>fps = 30\<close> both are 33333.
\<close>

theorem target_fps_frame_duration:
  assumes "targetFps (mergeControls (cm_pendingControls cm) controls) = Some fps"
    and "0 < sint fps"
  shows "\<exists>cm' rc' d. applyControls cm controls rc = Inr (cm', rc') \<and>
           rc' FrameDurationLimits = Some (Int64Span [d, d]) \<and>
           sint d = 1000000 div sint fps \<and>
           (fps = 30 \<longrightarrow> d = 33333)"
proof -
  from assms(2) have nz: "fps \<noteq> 0" by auto
  define d :: int64 where "d = scast (word_of_int (1000000 sdiv sint fps) :: int32)"
  from applyControls_frameDuration [OF assms(1) nz, of rc]
  obtain cm' rc' where r: "applyControls cm controls rc = Inr (cm', rc')"
    and l: "rc' FrameDurationLimits = Some (Int64Span [d, d])"
    by (auto simp: d_def)
  have s: "sint d = 1000000 div sint fps"
    unfolding d_def by (rule frame_duration_positive [OF assms(2)])
  have "fps = 30 \<Longrightarrow> d = 33333"
    by (simp add: d_def)
  with r l s show ?thesis by blast
qed

theorem target_fps_frame_duration_witness:
  "targetFps (mergeControls (cm_pendingControls ControlManager_new)
       (noControls\<lparr>targetFps := Some 30\<rparr>)) = Some 30 \<and>
   0 < sint (30 :: int32) \<and>
   (\<exists>cm' rc'. applyControls ControlManager_new (noControls\<lparr>targetFps := Some 30\<rparr>) Map.empty
        = Inr (cm', rc') \<and>
      rc' FrameDurationLimits = Some (Int64Span [33333, 33333]))"
proof -
  have h1: "targetFps (mergeControls (cm_pendingControls ControlManager_new)
       (noControls\<lparr>targetFps := Some 30\<rparr>)) = Some 30"
    by (simp add: mergeControls_def assignIfSet_def)
  have h2: "0 < sint (30 :: int32)" by simp
  from target_fps_frame_duration [OF h1 h2, of Map.empty] h1 h2 show ?thesis by auto
qed

text \<open>
  Claim C2. In every run of \<^verbatim>\<open>applyControls\<close> calls that returns, call \<open>i\<close> writes the
  af-trigger entry of its request exactly when its own control set carries an af-trigger (the
  value is written whatever it is), and otherwise leaves the entry as it found it: a trigger
  set in an earlier call is not pending any more. After the run no af-trigger is pending. For
  the first call this needs that no trigger was pending before the run.
\<close>

theorem af_trigger_one_shot:
  assumes "applyControls_seq cm calls = Inr (cm', rcs)"
    and "i < length calls"
    and "calls ! i = (c, rc)"
    and "0 < i \<or> afTrigger (cm_pendingControls cm) = None"
  shows "(rcs ! i) AfTrigger =
           (case afTrigger c of None \<Rightarrow> rc AfTrigger | Some v \<Rightarrow> Some (Int32Value v)) \<and>
         afTrigger (cm_pendingControls cm') = None \<and>
         length rcs = length calls"
proof -
  from assms(2) have ne: "calls \<noteq> []" by auto
  show ?thesis
    using applyControls_seq_afTrigger [OF assms]
      applyControls_seq_pending [OF assms(1) ne]
      applyControls_seq_length [OF assms(1)]
    by simp
qed

theorem af_trigger_one_shot_witness:
  "\<exists>cm' rcs. applyControls_seq ControlManager_new
       [(noControls\<lparr>afTrigger := Some 0\<rparr>, Map.empty), (noControls, Map.empty)]
       = Inr (cm', rcs) \<and>
     (rcs ! 0) AfTrigger = Some (Int32Value 0) \<and>
     (rcs ! 1) AfTrigger = None \<and>
     afTrigger (cm_pendingControls cm') = None"
proof -
  let ?calls = "[(noControls\<lparr>afTrigger := Some 0\<rparr>, Map.empty), (noControls, Map.empty)]"
  have "\<exists>cm' rcs. applyControls_seq ControlManager_new ?calls = Inr (cm', rcs)"
    by (rule applyControls_seq_returns)
      (simp_all add: ControlManager_new_def noControls_def)
  then obtain cm' rcs where run: "applyControls_seq ControlManager_new ?calls = Inr (cm', rcs)"
    by blast
  have p: "afTrigger (cm_pendingControls ControlManager_new) = None"
    by (simp add: ControlManager_new_def noControls_def)
  from af_trigger_one_shot [OF run, of 0 "noControls\<lparr>afTrigger := Some 0\<rparr>" Map.empty] p
  have first: "(rcs ! 0) AfTrigger = Some (Int32Value 0)"
    by simp
  from af_trigger_one_shot [OF run, of 1 noControls Map.empty]
  have second: "(rcs ! 1) AfTrigger = None" and pend: "afTrigger (cm_pendingControls cm') = None"
    by (simp_all add: noControls_def)
  from run first second pend show ?thesis by blast
qed

text \<open>
  Claim C6. \<^verbatim>\<open>Controls::colourGains\<close> is a \<^verbatim>\<open>std::array<float, 2>\<close>: inside
  \<^verbatim>\<open>applyControls\<close> every colour-gains value has two elements, and an array with fewer is
  turned away where the controls object is parsed (\<open>parseColourGains\<close>). For the control set
  parsed from an entry: with fewer than 2 elements the call does what it does with no
  colour gains given at all, and with none pending it neither writes the colour-gains entry
  of the request nor changes current; with 2 elements \<open>[r, b]\<close> it writes \<open>[r, b]\<close> to the
  request and makes \<open>(r, b)\<close> current (with more, the first two).
\<close>

theorem colour_gains_applied:
  assumes "applyControls cm (c\<lparr>colourGains := parseColourGains entry\<rparr>) rc = Inr (cm', rc')"
  shows "(\<forall>gains. entry = Some gains \<and> length gains < 2 \<longrightarrow>
            applyControls cm (c\<lparr>colourGains := None\<rparr>) rc = Inr (cm', rc') \<and>
            (colourGains (cm_pendingControls cm) = None \<longrightarrow>
               rc' ColourGains = rc ColourGains \<and>
               colourGains (cm_currentControls cm') = colourGains (cm_currentControls cm))) \<and>
         (\<forall>gains. entry = Some gains \<and> 2 \<le> length gains \<longrightarrow>
            rc' ColourGains = Some (FloatSpan [gains ! 0, gains ! 1]) \<and>
            colourGains (cm_currentControls cm') = Some (gains ! 0, gains ! 1)) \<and>
         (\<forall>r b. entry = Some [r, b] \<longrightarrow>
            rc' ColourGains = Some (FloatSpan [r, b]) \<and>
            colourGains (cm_currentControls cm') = Some (r, b))"
proof -
  note r = applyControls_Inr [OF assms]
  have long: "rc' ColourGains = Some (FloatSpan [gains ! 0, gains ! 1]) \<and>
        colourGains (cm_currentControls cm') = Some (gains ! 0, gains ! 1)"
    if "entry = Some gains" "2 \<le> length gains" for gains
    using r(3,4) that by (simp add: parseColourGains_long assignIfSet_def)
  have short: "applyControls cm (c\<lparr>colourGains := None\<rparr>) rc = Inr (cm', rc') \<and>
        (colourGains (cm_pendingControls cm) = None \<longrightarrow>
           rc' ColourGains = rc ColourGains \<and>
           colourGains (cm_currentControls cm') = colourGains (cm_currentControls cm))"
    if "entry = Some gains" "length gains < 2" for gains
    using assms r(3,4) that by (simp add: parseColourGains_short assignIfSet_def)
  have two: "rc' ColourGains = Some (FloatSpan [r, b]) \<and>
        colourGains (cm_currentControls cm') = Some (r, b)"
    if "entry = Some [r, b]" for r b
    using long [OF that] by simp
  from long short two show ?thesis by blast
qed

theorem colour_gains_applied_witness:
  "(\<exists>cm' rc'. applyControls ControlManager_new
       (noControls\<lparr>colourGains := parseColourGains (Some [0x3FC00000, 0x40000000])\<rparr>) Map.empty
       = Inr (cm', rc') \<and>
     rc' ColourGains = Some (FloatSpan [0x3FC00000, 0x40000000]) \<and>
     colourGains (cm_currentControls cm') = Some (0x3FC00000, 0x40000000)) \<and>
   (\<exists>cm' rc'. applyControls ControlManager_new
       (noControls\<lparr>colourGains := parseColourGains (Some [0x3FC00000])\<rparr>) Map.empty
       = Inr (cm', rc') \<and>
     rc' ColourGains = None \<and>
     colourGains (cm_currentControls cm') = None)"
proof -
  let ?c = "noControls\<lparr>colourGains := parseColourGains (Some [0x3FC00000, 0x40000000])\<rparr>"
  let ?d = "noControls\<lparr>colourGains := parseColourGains (Some [0x3FC00000])\<rparr>"
  have "targetFps (mergeControls (cm_pendingControls ControlManager_new) ?c) \<noteq> Some 0"
    by (simp add: ControlManager_new_def noControls_def assignIfSet_def)
  from applyControls_returns [OF this, of Map.empty]
  obtain cm' rc' where run: "applyControls ControlManager_new ?c Map.empty = Inr (cm', rc')"
    by blast
  from colour_gains_applied [OF run] have two:
    "rc' ColourGains = Some (FloatSpan [0x3FC00000, 0x40000000]) \<and>
     colourGains (cm_currentControls cm') = Some (0x3FC00000, 0x40000000)"
    by blast
  have "targetFps (mergeControls (cm_pendingControls ControlManager_new) ?d) \<noteq> Some 0"
    by (simp add: ControlManager_new_def noControls_def assignIfSet_def)
  from applyControls_returns [OF this, of Map.empty]
  obtain cm1 rc1 where run1: "applyControls ControlManager_new ?d Map.empty = Inr (cm1, rc1)"
    by blast
  from colour_gains_applied [OF run1] have one:
    "rc1 ColourGains = None \<and> colourGains (cm_currentControls cm1) = None"
    by (simp add: ControlManager_new_def noControls_def)
  from run two run1 one show ?thesis by blast
qed

section \<open>Properties of the orchestrator's control path\<close>

lemma setControls_fields [simp]:
  "fst (setControls s c) = True"
  "impl_pendingControls (snd (setControls s c)) = Some c"
  "impl_controlManager (snd (setControls s c)) = impl_controlManager s"
  "impl_camera (snd (setControls s c)) = impl_camera s"
  "impl_device (snd (setControls s c)) = impl_device s"
  "impl_streamManager (snd (setControls s c)) = impl_streamManager s"
  "impl_running (snd (setControls s c)) = impl_running s"
  "impl_jpegQuality (snd (setControls s c)) =
     (case jpegQuality c of Some q \<Rightarrow> q | None \<Rightarrow> impl_jpegQuality s)"
  by (simp_all add: setControls_def Let_def split: option.split)

lemma setControls_twice:
  "snd (setControls (snd (setControls s c1)) c2) =
   (snd (setControls s c2))\<lparr>impl_jpegQuality :=
      (case jpegQuality c2 of
         Some q \<Rightarrow> q
       | None \<Rightarrow> (case jpegQuality c1 of Some q \<Rightarrow> q | None \<Rightarrow> impl_jpegQuality s))\<rparr>"
  by (simp add: setControls_def Let_def split: option.split)

lemma apply_pending_quality:
  "apply_pending (s\<lparr>impl_jpegQuality := q\<rparr>) request =
   map_sum id (\<lambda>(s', r). (s'\<lparr>impl_jpegQuality := q\<rparr>, r)) (apply_pending s request)"
  by (simp add: apply_pending_def split: option.split sum.split)

lemma apply_pending_Some:
  assumes "impl_pendingControls s = Some c" and "impl_controlManager s = Some cm"
    and "apply_pending s request = Inr (s1, request1)"
  shows "\<exists>cm' rc'. applyControls cm c (req_controls request) = Inr (cm', rc') \<and>
           s1 = s\<lparr>impl_controlManager := Some cm', impl_pendingControls := None\<rparr> \<and>
           request1 = request\<lparr>req_controls := rc'\<rparr>"
  using assms by (auto simp: apply_pending_def split: sum.splits)

lemma requestComplete_Inr:
  assumes "requestComplete lc mem s request = Inr (s', events)"
    and "req_status request \<noteq> RequestCancelled"
  shows "\<exists>s1 request1. apply_pending s request = Inr (s1, request1) \<and>
           s' = s1\<lparr>impl_device := (impl_device s1)\<lparr>cam_queue :=
                   cam_queue (impl_device s1) @ [lc_reuse lc request1]\<rparr>\<rparr>"
  using assms by (auto simp: requestComplete_def Let_def split: sum.splits option.splits)

text \<open>
  Claim C3. Let \<^verbatim>\<open>setControls\<close> receive a control set with \<open>jpegQuality = q\<close>, and let one
  request that is not cancelled complete and its handler return. Then \<^verbatim>\<open>getControls\<close>
  reports \<open>jpegQuality = q\<close>, the value cached for the encoder is \<open>q\<close>, and the request is
  queued again with the control list \<^verbatim>\<open>applyControls\<close> gave it, which is the same list
  whatever jpeg-quality is pending or given (\<open>x\<close>, \<open>y\<close>): no entry of it comes from the
  jpeg-quality.
\<close>

theorem jpeg_quality_cached_not_written:
  assumes "jpegQuality controls = Some q"
    and "impl_controlManager s = Some cm"
    and "req_status request \<noteq> RequestCancelled"
    and "requestComplete lc mem (snd (setControls s controls)) request = Inr (s', events)"
  shows "(\<exists>cur. getControls s' = Inr cur \<and> jpegQuality cur = Some q) \<and>
         impl_jpegQuality s' = q \<and>
         (\<exists>cm' rc'. applyControls cm controls (req_controls request) = Inr (cm', rc') \<and>
            impl_controlManager s' = Some cm' \<and>
            cam_queue (impl_device s') =
              cam_queue (impl_device s) @ [lc_reuse lc (request\<lparr>req_controls := rc'\<rparr>)] \<and>
            (\<forall>x y. \<exists>cm''.
               applyControls (cm\<lparr>cm_pendingControls := (cm_pendingControls cm)\<lparr>jpegQuality := x\<rparr>\<rparr>)
                 (controls\<lparr>jpegQuality := y\<rparr>) (req_controls request) = Inr (cm'', rc')))"
proof -
  let ?s0 = "snd (setControls s controls)"
  from requestComplete_Inr [OF assms(4,3)]
  obtain s1 request1 where ap: "apply_pending ?s0 request = Inr (s1, request1)"
    and s': "s' = s1\<lparr>impl_device := (impl_device s1)\<lparr>cam_queue :=
                   cam_queue (impl_device s1) @ [lc_reuse lc request1]\<rparr>\<rparr>"
    by blast
  have "impl_pendingControls ?s0 = Some controls" "impl_controlManager ?s0 = Some cm"
    using assms(2) by simp_all
  from apply_pending_Some [OF this ap]
  obtain cm' rc' where run: "applyControls cm controls (req_controls request) = Inr (cm', rc')"
    and s1: "s1 = ?s0\<lparr>impl_controlManager := Some cm', impl_pendingControls := None\<rparr>"
    and r1: "request1 = request\<lparr>req_controls := rc'\<rparr>"
    by blast
  have cur: "jpegQuality (cm_currentControls cm') = Some q"
    using applyControls_Inr(5) [OF run] assms(1) by (simp add: assignIfSet_def)
  have a: "\<exists>cur. getControls s' = Inr cur \<and> jpegQuality cur = Some q"
    using cur by (simp add: getControls_def getCurrentControls_def s' s1)
  have b: "impl_jpegQuality s' = q"
    using assms(1) by (simp add: s' s1)
  have c: "impl_controlManager s' = Some cm'"
    by (simp add: s' s1)
  have d: "cam_queue (impl_device s') =
              cam_queue (impl_device s) @ [lc_reuse lc (request\<lparr>req_controls := rc'\<rparr>)]"
    by (simp add: s' s1 r1)
  have e: "\<exists>cm''. applyControls (cm\<lparr>cm_pendingControls := (cm_pendingControls cm)\<lparr>jpegQuality := x\<rparr>\<rparr>)
                 (controls\<lparr>jpegQuality := y\<rparr>) (req_controls request) = Inr (cm'', rc')" for x y
    by (rule applyControls_req_quality [OF run])
  from a b run c d e show ?thesis by blast
qed

theorem jpeg_quality_cached_not_written_witness:
  "\<exists>s' events.
     requestComplete demo_layer (\<lambda>a. [])
       (snd (setControls (Impl_new\<lparr>impl_camera := Some 0,
                                    impl_controlManager := Some ControlManager_new\<rparr>)
               (noControls\<lparr>jpegQuality := Some 90\<rparr>)))
       (demo_request\<lparr>req_status := RequestComplete\<rparr>) = Inr (s', events) \<and>
     (\<exists>cur. getControls s' = Inr cur \<and> jpegQuality cur = Some 90) \<and>
     impl_jpegQuality s' = 90"
proof -
  let ?s = "Impl_new\<lparr>impl_camera := Some 0, impl_controlManager := Some ControlManager_new\<rparr>"
  let ?c = "noControls\<lparr>jpegQuality := Some 90\<rparr>"
  let ?r = "demo_request\<lparr>req_status := RequestComplete\<rparr>"
  have "targetFps (mergeControls (cm_pendingControls ControlManager_new) ?c) \<noteq> Some 0"
    by (simp add: ControlManager_new_def noControls_def assignIfSet_def)
  from applyControls_returns [OF this, of "req_controls ?r"]
  obtain cm' rc' where run: "applyControls ControlManager_new ?c (req_controls ?r) = Inr (cm', rc')"
    by blast
  have "\<exists>s' events. requestComplete demo_layer (\<lambda>a. []) (snd (setControls ?s ?c)) ?r = Inr (s', events)"
    using run
    by (simp add: requestComplete_def apply_pending_def demo_request_def Impl_new_def Let_def)
  then obtain s' events where
    fin: "requestComplete demo_layer (\<lambda>a. []) (snd (setControls ?s ?c)) ?r = Inr (s', events)"
    by blast
  have h1: "jpegQuality ?c = Some 90" by simp
  have h2: "impl_controlManager ?s = Some ControlManager_new" by simp
  have h3: "req_status ?r \<noteq> RequestCancelled" by simp
  from jpeg_quality_cached_not_written [OF h1 h2 h3 fin] fin
  show ?thesis by blast
qed

text \<open>
  Claim C10. Two \<^verbatim>\<open>setControls\<close> calls in a row leave the orchestrator as the second call
  alone does, except for the cached jpeg-quality (which keeps the first call's value when
  the second gives none): the pending set is the second control set, and the next completion
  gives the request the same control list and leaves the same \<^verbatim>\<open>ControlManager\<close> as if the
  first call had not been made. Inside \<^verbatim>\<open>ControlManager\<close>, two \<^verbatim>\<open>applyControls\<close> calls that
  return merge field by field: pending is the merge of both control sets into what was
  pending, less the af-trigger.
\<close>

theorem setControls_replaces_pending:
  "snd (setControls (snd (setControls s c1)) c2) =
     (snd (setControls s c2))\<lparr>impl_jpegQuality :=
        (case jpegQuality c2 of
           Some q \<Rightarrow> q
         | None \<Rightarrow> (case jpegQuality c1 of Some q \<Rightarrow> q | None \<Rightarrow> impl_jpegQuality s))\<rparr> \<and>
   impl_pendingControls (snd (setControls (snd (setControls s c1)) c2)) = Some c2 \<and>
   map_sum id (\<lambda>(s', r). (impl_controlManager s', impl_pendingControls s', r))
       (apply_pending (snd (setControls (snd (setControls s c1)) c2)) request) =
     map_sum id (\<lambda>(s', r). (impl_controlManager s', impl_pendingControls s', r))
       (apply_pending (snd (setControls s c2)) request) \<and>
   (\<forall>cm cm1 cm2 rc1 rc1' rc2 rc2'.
      applyControls cm c1 rc1 = Inr (cm1, rc1') \<and> applyControls cm1 c2 rc2 = Inr (cm2, rc2') \<longrightarrow>
      cm_pendingControls cm2 =
        (mergeControls (mergeControls (cm_pendingControls cm) c1) c2)\<lparr>afTrigger := None\<rparr>)"
proof -
  have m: "cm_pendingControls cm2 =
        (mergeControls (mergeControls (cm_pendingControls cm) c1) c2)\<lparr>afTrigger := None\<rparr>"
    if "applyControls cm c1 rc1 = Inr (cm1, rc1')" "applyControls cm1 c2 rc2 = Inr (cm2, rc2')"
    for cm cm1 cm2 rc1 rc1' rc2 rc2'
    using applyControls_Inr(1) [OF that(1)] applyControls_Inr(1) [OF that(2)]
    by (simp add: mergeControls_def)
  have p: "map_sum id (\<lambda>(s', r). (impl_controlManager s', impl_pendingControls s', r))
       (apply_pending (snd (setControls (snd (setControls s c1)) c2)) request) =
     map_sum id (\<lambda>(s', r). (impl_controlManager s', impl_pendingControls s', r))
       (apply_pending (snd (setControls s c2)) request)"
    by (simp add: setControls_twice apply_pending_quality sum.map_comp comp_def split_def id_def)
  from m p show ?thesis
    by (simp add: setControls_twice) blast
qed

theorem setControls_replaces_pending_witness:
  "impl_pendingControls
     (snd (setControls (snd (setControls Impl_new (noControls\<lparr>exposureTime := Some 5000\<rparr>)))
             (noControls\<lparr>brightness := Some 0x3F000000\<rparr>)))
     = Some (noControls\<lparr>brightness := Some 0x3F000000\<rparr>) \<and>
   (\<exists>cm1 rc1 cm2 rc2.
      applyControls ControlManager_new (noControls\<lparr>exposureTime := Some 5000\<rparr>) Map.empty
        = Inr (cm1, rc1) \<and>
      applyControls cm1 (noControls\<lparr>brightness := Some 0x3F000000\<rparr>) Map.empty = Inr (cm2, rc2) \<and>
      exposureTime (cm_pendingControls cm2) = Some 5000 \<and>
      brightness (cm_pendingControls cm2) = Some 0x3F000000)"
proof -
  let ?c1 = "noControls\<lparr>exposureTime := Some 5000\<rparr>"
  let ?c2 = "noControls\<lparr>brightness := Some 0x3F000000\<rparr>"
  note both = setControls_replaces_pending [of Impl_new ?c1 ?c2 demo_request]
  have "targetFps (mergeControls (cm_pendingControls ControlManager_new) ?c1) \<noteq> Some 0"
    by (simp add: ControlManager_new_def noControls_def assignIfSet_def)
  from applyControls_returns [OF this, of Map.empty]
  obtain cm1 rc1 where run1: "applyControls ControlManager_new ?c1 Map.empty = Inr (cm1, rc1)"
    by blast
  have "targetFps (mergeControls (cm_pendingControls cm1) ?c2) \<noteq> Some 0"
    using applyControls_Inr(1) [OF run1]
    by (simp add: ControlManager_new_def noControls_def assignIfSet_def)
  from applyControls_returns [OF this, of Map.empty]
  obtain cm2 rc2 where run2: "applyControls cm1 ?c2 Map.empty = Inr (cm2, rc2)"
    by blast
  from both run1 run2
  have "cm_pendingControls cm2 =
        (mergeControls (mergeControls (cm_pendingControls ControlManager_new) ?c1) ?c2)\<lparr>afTrigger := None\<rparr>"
    by blast
  then have "exposureTime (cm_pendingControls cm2) = Some 5000 \<and>
      brightness (cm_pendingControls cm2) = Some 0x3F000000"
    by (simp add: mergeControls_def ControlManager_new_def noControls_def assignIfSet_def)
  with both run1 run2 show ?thesis by blast
qed

section \<open>Properties of StreamManager\<close>

lemma mapBuffer_RAW: "mapBuffer lc sm fb RAW w h = (True, sm)"
  by (simp add: mapBuffer_def)

lemma mmap_planes_result:
  "mmap_planes lc sm fb n = (ok, sm') \<Longrightarrow>
   sm_streamTypes sm' = sm_streamTypes sm \<and>
   dom (sm_mappedBuffers sm') \<subseteq> insert (fb_addr fb) (dom (sm_mappedBuffers sm))"
  by (auto simp: mmap_planes_def split: list.splits option.splits)

lemma mapBuffer_result:
  assumes "mapBuffer lc sm fb ty w h = (ok, sm')"
  shows "sm_streamTypes sm' = sm_streamTypes sm"
    and "dom (sm_mappedBuffers sm') \<subseteq> (if ty = RAW then {} else {fb_addr fb}) \<union> dom (sm_mappedBuffers sm)"
  using assms mmap_planes_result [of lc sm fb _ ok sm']
  by (auto simp: mapBuffer_def split: if_splits StreamType.splits)

lemma streamTypes_subscript_result:
  assumes "streamTypes_subscript sm st = (ty, sm1)"
  shows "sm_mappedBuffers sm1 = sm_mappedBuffers sm"
    and "sm_streamTypes sm st = Some RAW \<longleftrightarrow> ty = RAW"
    and "sm_streamTypes sm1 st' = Some RAW \<longleftrightarrow> sm_streamTypes sm st' = Some RAW"
  using assms by (auto simp: streamTypes_subscript_def split: option.splits if_splits)

lemma map_stream_buffers_result:
  "map_stream_buffers lc st w h fbs (sm, ptrs) = (ok, sm', ptrs') \<Longrightarrow>
   (\<forall>st'. sm_streamTypes sm' st' = Some RAW \<longleftrightarrow> sm_streamTypes sm st' = Some RAW) \<and>
   dom (sm_mappedBuffers sm') \<subseteq>
     (if sm_streamTypes sm st = Some RAW then {} else fb_addr ` set fbs) \<union> dom (sm_mappedBuffers sm)"
proof (induction fbs arbitrary: sm ptrs)
  case Nil
  then show ?case by simp
next
  case (Cons fb fbs)
  obtain ty sm1 where sub: "streamTypes_subscript sm st = (ty, sm1)"
    by (cases "streamTypes_subscript sm st")
  obtain ok1 sm2 where mb: "mapBuffer lc sm1 fb ty w h = (ok1, sm2)"
    by (cases "mapBuffer lc sm1 fb ty w h")
  note s = streamTypes_subscript_result [OF sub]
  note m = mapBuffer_result [OF mb]
  have types2: "sm_streamTypes sm2 st' = Some RAW \<longleftrightarrow> sm_streamTypes sm st' = Some RAW" for st'
    using s(3) m(1) by simp
  have dom2: "dom (sm_mappedBuffers sm2) \<subseteq>
      (if sm_streamTypes sm st = Some RAW then {} else {fb_addr fb}) \<union> dom (sm_mappedBuffers sm)"
    using m(2) s(1,2) by auto
  show ?case
  proof (cases ok1)
    case False
    with Cons.prems sub mb have "sm' = sm2" by simp
    with types2 dom2 show ?thesis by auto
  next
    case True
    with Cons.prems sub mb
    have rest: "map_stream_buffers lc st w h fbs (sm2, ptrs @ [fb_addr fb]) = (ok, sm', ptrs')"
      by simp
    from Cons.IH [OF rest] types2
    have types': "\<forall>st'. sm_streamTypes sm' st' = Some RAW \<longleftrightarrow> sm_streamTypes sm st' = Some RAW"
      and dom': "dom (sm_mappedBuffers sm') \<subseteq>
        (if sm_streamTypes sm st = Some RAW then {} else fb_addr ` set fbs) \<union> dom (sm_mappedBuffers sm2)"
      by simp_all
    from dom' dom2 have "dom (sm_mappedBuffers sm') \<subseteq>
        (if sm_streamTypes sm st = Some RAW then {} else fb_addr ` set (fb # fbs)) \<union> dom (sm_mappedBuffers sm)"
      by (simp split: if_splits; blast)
    with types' show ?thesis by blast
  qed
qed

lemma allocate_streams_result:
  "allocate_streams lc cfgs sm = (ok, sm') \<Longrightarrow>
   (\<forall>st'. sm_streamTypes sm' st' = Some RAW \<longleftrightarrow> sm_streamTypes sm st' = Some RAW) \<and>
   dom (sm_mappedBuffers sm') \<subseteq>
     {a. \<exists>cfg \<in> set cfgs. \<exists>bufs fb. lc_allocate lc (cfg_stream cfg) = Some bufs \<and> fb \<in> set bufs \<and>
            fb_addr fb = a \<and> sm_streamTypes sm (cfg_stream cfg) \<noteq> Some RAW}
     \<union> dom (sm_mappedBuffers sm)"
proof (induction cfgs arbitrary: sm)
  case Nil
  then show ?case by simp
next
  case (Cons cfg cfgs)
  show ?case
  proof (cases "lc_allocate lc (cfg_stream cfg)")
    case None
    with Cons.prems show ?thesis by simp
  next
    case (Some bufs)
    define sm1 where "sm1 = sm\<lparr>sm_allocator := (sm_allocator sm)(cfg_stream cfg \<mapsto> bufs)\<rparr>"
    obtain ok1 sm2 ptrs where ms:
      "map_stream_buffers lc (cfg_stream cfg) (size_width cfg) (size_height cfg) bufs (sm1, []) = (ok1, sm2, ptrs)"
      by (cases "map_stream_buffers lc (cfg_stream cfg) (size_width cfg) (size_height cfg) bufs (sm1, [])")
    from map_stream_buffers_result [OF ms]
    have types2: "\<And>st'. sm_streamTypes sm2 st' = Some RAW \<longleftrightarrow> sm_streamTypes sm st' = Some RAW"
      and dom2: "dom (sm_mappedBuffers sm2) \<subseteq>
        (if sm_streamTypes sm (cfg_stream cfg) = Some RAW then {} else fb_addr ` set bufs)
        \<union> dom (sm_mappedBuffers sm)"
      by (simp_all add: sm1_def)
    show ?thesis
    proof (cases ok1)
      case False
      with Cons.prems Some ms have "sm' = sm2" by (simp add: sm1_def)
      with types2 dom2 Some show ?thesis by (auto split: if_splits)
    next
      case True
      define sm3 where "sm3 = sm2\<lparr>sm_streamBuffers := (sm_streamBuffers sm2)(cfg_stream cfg \<mapsto> ptrs)\<rparr>"
      from Cons.prems Some ms True
      have rest: "allocate_streams lc cfgs sm3 = (ok, sm')"
        by (simp add: sm1_def sm3_def)
      from Cons.IH [OF rest] types2
      have types': "\<forall>st'. sm_streamTypes sm' st' = Some RAW \<longleftrightarrow> sm_streamTypes sm st' = Some RAW"
        and dom': "dom (sm_mappedBuffers sm') \<subseteq>
          {a. \<exists>c \<in> set cfgs. \<exists>bufs fb. lc_allocate lc (cfg_stream c) = Some bufs \<and> fb \<in> set bufs \<and>
                 fb_addr fb = a \<and> sm_streamTypes sm (cfg_stream c) \<noteq> Some RAW}
          \<union> dom (sm_mappedBuffers sm2)"
        by (simp_all add: sm3_def)
      have "dom (sm_mappedBuffers sm') \<subseteq>
          {a. \<exists>c \<in> set (cfg # cfgs). \<exists>bufs fb. lc_allocate lc (cfg_stream c) = Some bufs \<and> fb \<in> set bufs \<and>
                 fb_addr fb = a \<and> sm_streamTypes sm (cfg_stream c) \<noteq> Some RAW}
          \<union> dom (sm_mappedBuffers sm)"
      proof
        fix a assume "a \<in> dom (sm_mappedBuffers sm')"
        with dom' consider
          (later) "\<exists>c \<in> set cfgs. \<exists>bufs fb. lc_allocate lc (cfg_stream c) = Some bufs \<and> fb \<in> set bufs \<and>
                 fb_addr fb = a \<and> sm_streamTypes sm (cfg_stream c) \<noteq> Some RAW"
          | (now) "a \<in> dom (sm_mappedBuffers sm2)"
          by blast
        then show "a \<in> {a. \<exists>c \<in> set (cfg # cfgs). \<exists>bufs fb. lc_allocate lc (cfg_stream c) = Some bufs \<and>
                 fb \<in> set bufs \<and> fb_addr fb = a \<and> sm_streamTypes sm (cfg_stream c) \<noteq> Some RAW}
          \<union> dom (sm_mappedBuffers sm)"
        proof cases
          case later
          then show ?thesis by auto
        next
          case now
          with dom2 have "a \<in> (if sm_streamTypes sm (cfg_stream cfg) = Some RAW then {} else fb_addr ` set bufs)
              \<or> a \<in> dom (sm_mappedBuffers sm)"
            by blast
          with Some show ?thesis by (auto split: if_splits)
        qed
      qed
      with types' show ?thesis by blast
    qed
  qed
qed

lemma attach_buffers_frame:
  "attach_buffers cfgs i (sm, r) = (sm', r') \<Longrightarrow>
   sm_mappedBuffers sm' = sm_mappedBuffers sm \<and> sm_streamTypes sm' = sm_streamTypes sm"
  by (induction cfgs arbitrary: sm r) (fastforce simp: Let_def split: option.splits)+

lemma create_requests_frame:
  "create_requests lc cfgs idx sm = (ok, sm') \<Longrightarrow>
   sm_mappedBuffers sm' = sm_mappedBuffers sm \<and> sm_streamTypes sm' = sm_streamTypes sm"
proof (induction idx arbitrary: sm)
  case Nil
  then show ?case by simp
next
  case (Cons i idx)
  show ?case
  proof (cases "lc_createRequest lc i")
    case None
    with Cons.prems show ?thesis by simp
  next
    case (Some request)
    obtain sm1 r1 where at: "attach_buffers cfgs i (sm, request) = (sm1, r1)"
      by (cases "attach_buffers cfgs i (sm, request)")
    from Cons.prems Some at
    have "create_requests lc cfgs idx (sm1\<lparr>sm_requests := sm_requests sm1 @ [r1]\<rparr>) = (ok, sm')"
      by simp
    from Cons.IH [OF this] attach_buffers_frame [OF at] show ?thesis by simp
  qed
qed

lemma allocateBuffers_mapped:
  assumes "sm_config sm = Some cfgs" and "allocateBuffers lc sm = Inr (ok, sm')"
  shows "dom (sm_mappedBuffers sm') \<subseteq>
     {a. \<exists>cfg \<in> set cfgs. \<exists>bufs fb. lc_allocate lc (cfg_stream cfg) = Some bufs \<and> fb \<in> set bufs \<and>
            fb_addr fb = a \<and> sm_streamTypes sm (cfg_stream cfg) \<noteq> Some RAW}
     \<union> dom (sm_mappedBuffers sm)"
proof -
  obtain ok1 sm1 where al: "allocate_streams lc cfgs sm = (ok1, sm1)"
    by (cases "allocate_streams lc cfgs sm")
  note a = allocate_streams_result [OF al]
  show ?thesis
  proof (cases ok1)
    case False
    with assms al have "sm' = sm1" by (simp add: allocateBuffers_def)
    with a show ?thesis by simp
  next
    case True
    with assms al have "create_requests lc cfgs [0..<numRequests] sm1 = (ok, sm')"
      by (simp add: allocateBuffers_def)
    from create_requests_frame [OF this] a show ?thesis by simp
  qed
qed

lemma process_buffers_RAW:
  "impl_streamManager s = Some sm \<Longrightarrow>
   process_buffers mem s ts seq (filter (\<lambda>(st, b). getStreamType sm st \<noteq> RAW) bufs) =
   process_buffers mem s ts seq bufs"
  by (induction bufs) (auto simp: Let_def split: option.splits)

lemma process_buffers_state:
  "impl_streamManager s' = impl_streamManager s \<Longrightarrow> impl_jpegEncoder s' = impl_jpegEncoder s \<Longrightarrow>
   impl_frameCallback s' = impl_frameCallback s \<Longrightarrow> impl_jpegQuality s' = impl_jpegQuality s \<Longrightarrow>
   process_buffers mem s' ts seq bufs = process_buffers mem s ts seq bufs"
  by (induction bufs) (auto simp: Let_def split: option.splits sum.splits)

lemma process_buffers_types:
  "process_buffers mem s ts seq bufs = Inr events \<Longrightarrow> FrameDelivered cb ty f \<in> set events \<Longrightarrow>
   ty = RGB"
  by (induction bufs arbitrary: events)
     (auto simp: Let_def split: option.splits if_splits sum.splits)

lemma apply_pending_frame:
  assumes "apply_pending s request = Inr (s1, request1)"
  shows "impl_streamManager s1 = impl_streamManager s" "impl_jpegEncoder s1 = impl_jpegEncoder s"
    "impl_frameCallback s1 = impl_frameCallback s" "impl_jpegQuality s1 = impl_jpegQuality s"
    "impl_camera s1 = impl_camera s" "impl_running s1 = impl_running s"
    "req_buffers request1 = req_buffers request" "req_sequence request1 = req_sequence request"
    "req_sensorTimestamp request1 = req_sensorTimestamp request"
  using assms by (auto simp: apply_pending_def split: option.splits sum.splits)

lemma apply_pending_buffers:
  "apply_pending s (request\<lparr>req_buffers := bs\<rparr>) =
   map_sum id (\<lambda>(s', r). (s', r\<lparr>req_buffers := bs\<rparr>)) (apply_pending s request)"
  by (simp add: apply_pending_def split: option.split sum.split)

lemma requestComplete_RAW:
  assumes "impl_streamManager s = Some sm"
  shows "map_sum id snd (requestComplete lc mem s
             (request\<lparr>req_buffers := filter (\<lambda>(st, b). getStreamType sm st \<noteq> RAW) (req_buffers request)\<rparr>)) =
         map_sum id snd (requestComplete lc mem s request)"
proof (cases "req_status request = RequestCancelled")
  case True
  then show ?thesis by (simp add: requestComplete_def)
next
  case False
  show ?thesis
  proof (cases "apply_pending s request")
    case (Inl e)
    with False show ?thesis
      by (simp add: requestComplete_def apply_pending_buffers)
  next
    case (Inr res)
    obtain s1 request1 where res: "res = (s1, request1)" by (cases res)
    note f = apply_pending_frame [OF Inr [unfolded res]]
    have sm1: "impl_streamManager s1 = Some sm" using f(1) assms by simp
    from False Inr res process_buffers_RAW [OF sm1, of mem _ _ "req_buffers request"] f(7)
    show ?thesis
      by (simp add: requestComplete_def apply_pending_buffers Let_def
          split: sum.split option.split)
  qed
qed

lemma demo_configure:
  "\<exists>sm1. configure demo_layer StreamManager_new (Some demo_raw) [demo_rgb] = Inr (True, sm1) \<and>
     sm_config sm1 = Some [\<lparr>size_width = 2304, size_height = 1296, pixelFormat = SBGGR10,
                             bufferCount = 6, cfg_stream = 100\<rparr>,
                           \<lparr>size_width = 1280, size_height = 720, pixelFormat = BGR888,
                             bufferCount = 6, cfg_stream = 101\<rparr>] \<and>
     sm_streamTypes sm1 = [100 \<mapsto> RAW, 101 \<mapsto> RGB] \<and>
     sm_mappedBuffers sm1 = Map.empty \<and> sm_streamBuffers sm1 = Map.empty \<and> sm_requests sm1 = []"
  by (simp add: configure_def build_roles_def demo_layer_def demo_raw_def demo_rgb_def
      demo_configuration_def configure_stream_def StreamManager_new_def Let_def enumerate_eq_zip)

lemma demo_allocate:
  assumes "sm_config sm1 = Some [\<lparr>size_width = 2304, size_height = 1296, pixelFormat = SBGGR10,
                             bufferCount = 6, cfg_stream = 100\<rparr>,
                           \<lparr>size_width = 1280, size_height = 720, pixelFormat = BGR888,
                             bufferCount = 6, cfg_stream = 101\<rparr>]"
    and "sm_streamTypes sm1 = [100 \<mapsto> RAW, 101 \<mapsto> RGB]"
    and "sm_mappedBuffers sm1 = Map.empty" and "sm_streamBuffers sm1 = Map.empty"
    and "sm_requests sm1 = []"
  shows "\<exists>sm2. allocateBuffers demo_layer sm1 = Inr (True, sm2) \<and>
           sm_streamTypes sm2 = [100 \<mapsto> RAW, 101 \<mapsto> RGB] \<and>
           sm_streamBuffers sm2 = [100 \<mapsto> [1000], 101 \<mapsto> [1010]] \<and>
           sm_mappedBuffers sm2 = [1010 \<mapsto> \<lparr>mb_data = 5101, mb_size = 2764800\<rparr>] \<and>
           length (sm_requests sm2) = 6 \<and>
           req_buffers (hd (sm_requests sm2)) = [(100, 1000), (101, 1010)]"
  using assms
  by (simp add: allocateBuffers_def demo_layer_def streamTypes_subscript_def mapBuffer_def
      mmap_planes_def numRequests_def upt_rec [of _ 6] demo_request_def addBuffer_def Let_def)

lemma add_user_streams_prefix:
  "add_user_streams cfgs (roles, acs) = (roles', acs') \<Longrightarrow> \<exists>more. acs' = acs @ more"
proof (induction cfgs arbitrary: roles acs)
  case Nil
  then show ?case by simp
next
  case (Cons cfg cfgs)
  show ?case
  proof (cases "sc_type cfg")
    case JPEG
    with Cons.prems have "add_user_streams cfgs (roles @ [StillCapture], acs @ [cfg]) = (roles', acs')"
      by simp
    from Cons.IH [OF this] show ?thesis by auto
  next
    case RGB
    with Cons.prems have "add_user_streams cfgs (roles @ [StillCapture], acs @ [cfg]) = (roles', acs')"
      by simp
    from Cons.IH [OF this] show ?thesis by auto
  next
    case RAW
    with Cons.prems have "add_user_streams cfgs (roles, acs) = (roles', acs')" by simp
    from Cons.IH [OF this] show ?thesis .
  qed
qed

lemma build_roles_head:
  "build_roles rawStream configs = (roles, acs) \<Longrightarrow>
   \<exists>more. acs = (case rawStream of Some r \<Rightarrow> r | None \<Rightarrow> default_raw) # more"
  by (cases rawStream) (auto simp: build_roles_def dest: add_user_streams_prefix)

lemma register_types_frame:
  "register_types acs i applied types = Inr types' \<Longrightarrow>
   (\<forall>j < length acs. cfg_stream (applied ! (i + j)) \<noteq> st) \<Longrightarrow> types' st = types st"
proof (induction acs arbitrary: i types)
  case Nil
  then show ?case by simp
next
  case (Cons a acs)
  from Cons.prems(1) have in_range: "i < length applied"
    and rest: "register_types acs (Suc i) applied (types(cfg_stream (applied ! i) \<mapsto> sc_type a)) = Inr types'"
    by (auto split: if_splits)
  have "\<forall>j < length acs. cfg_stream (applied ! (Suc i + j)) \<noteq> st"
    using Cons.prems(2) by (metis add_Suc_shift length_Cons not_less_eq)
  from Cons.IH [OF rest this] Cons.prems(2) show ?case by force
qed

lemma register_types_bound:
  "register_types acs i applied types = Inr types' \<Longrightarrow> j < length acs \<Longrightarrow>
   i + j < length applied"
proof (induction acs arbitrary: i types j)
  case Nil
  then show ?case by simp
next
  case (Cons a acs)
  from Cons.prems(1) have in_range: "i < length applied"
    and rest: "register_types acs (Suc i) applied (types(cfg_stream (applied ! i) \<mapsto> sc_type a)) = Inr types'"
    by (auto split: if_splits)
  show ?case
  proof (cases j)
    case 0
    with in_range show ?thesis by simp
  next
    case (Suc k)
    with Cons.prems(2) have "k < length acs" by simp
    from Cons.IH [OF rest this] Suc show ?thesis by simp
  qed
qed

lemma register_types_first:
  assumes "register_types (a # acs) 0 applied types = Inr types'"
    and "distinct (map cfg_stream applied)"
  shows "applied \<noteq> [] \<and> types' (cfg_stream (hd applied)) = Some (sc_type a)"
proof -
  from assms(1) have ne: "applied \<noteq> []"
    and rest: "register_types acs (Suc 0) applied (types(cfg_stream (applied ! 0) \<mapsto> sc_type a)) = Inr types'"
    by (auto split: if_splits)
  have "\<forall>j < length acs. cfg_stream (applied ! (Suc 0 + j)) \<noteq> cfg_stream (applied ! 0)"
  proof (intro allI impI)
    fix j assume "j < length acs"
    from register_types_bound [OF rest this] have "Suc j < length applied" by simp
    with assms(2) ne show "cfg_stream (applied ! (Suc 0 + j)) \<noteq> cfg_stream (applied ! 0)"
      by (simp add: distinct_conv_nth)
  qed
  from register_types_frame [OF rest this] ne show ?thesis
    by (simp add: hd_conv_nth)
qed

lemma configure_registers_raw:
  assumes "configure lc sm0 rawStream configs = Inr (True, sm)"
    and "sm_config sm = Some cfgs"
    and "distinct (map cfg_stream cfgs)"
    and "\<forall>r. rawStream = Some r \<longrightarrow> sc_type r = RAW"
  shows "cfgs \<noteq> [] \<and> getStreamType sm (cfg_stream (hd cfgs)) = RAW"
proof -
  obtain roles acs where br: "build_roles rawStream configs = (roles, acs)"
    by (cases "build_roles rawStream configs")
  from build_roles_head [OF br] obtain more where
    acs: "acs = (case rawStream of Some r \<Rightarrow> r | None \<Rightarrow> default_raw) # more"
    by blast
  have raw: "sc_type (case rawStream of Some r \<Rightarrow> r | None \<Rightarrow> default_raw) = RAW"
    using assms(4) by (cases rawStream) (simp_all add: default_raw_def)
  from assms(1,2) br obtain types where
    reg: "register_types acs 0 cfgs Map.empty = Inr types" and ty: "sm_streamTypes sm = types"
    by (auto simp: configure_def Let_def split: option.splits sum.splits prod.splits if_splits)
  from register_types_first [OF reg [unfolded acs] assms(3)] raw ty show ?thesis
    by (simp add: getStreamType_def)
qed

section \<open>The claims about StreamManager\<close>

text \<open>
  Claim C4. A RAW stream is one that \<^verbatim>\<open>streamTypes_\<close> holds as \<open>RAW\<close>, whether the
  caller asked for it or \<^verbatim>\<open>configure\<close> added it. \<^verbatim>\<open>mapBuffer\<close> on type \<open>RAW\<close> succeeds
  and maps nothing. Every buffer that \<^verbatim>\<open>allocateBuffers\<close> adds to \<^verbatim>\<open>mappedBuffers_\<close> is a
  buffer the allocator gave for a stream that is not RAW. The completion handler
  does for a request what it does for the request without its RAW entries: the same
  callback invocations and encoder submissions, and the frame callback it invokes itself
  only ever carries type \<open>RGB\<close>. After a \<^verbatim>\<open>configure\<close> that succeeded, with the default
  RAW stream or with a RAW stream the caller asked for, the first stream of the
  configuration is a RAW stream (the camera layer giving every entry a stream of its own).
\<close>

theorem raw_buffers_never_mapped_nor_delivered:
  assumes "sm_config sm = Some cfgs"
    and "allocateBuffers lc sm = Inr (ok, sm')"
    and "impl_streamManager s = Some smgr"
  shows "mapBuffer lc sm0 fb0 RAW w h = (True, sm0) \<and>
         (\<forall>a \<in> dom (sm_mappedBuffers sm').
            a \<in> dom (sm_mappedBuffers sm) \<or>
            (\<exists>cfg \<in> set cfgs. \<exists>bufs fb. lc_allocate lc (cfg_stream cfg) = Some bufs \<and>
               fb \<in> set bufs \<and> fb_addr fb = a \<and> sm_streamTypes sm (cfg_stream cfg) \<noteq> Some RAW)) \<and>
         process_buffers mem s ts seq (filter (\<lambda>(st, b). getStreamType smgr st \<noteq> RAW) bufs) =
           process_buffers mem s ts seq bufs \<and>
         (\<forall>events cb ty f. process_buffers mem s ts seq bufs = Inr events \<and>
            FrameDelivered cb ty f \<in> set events \<longrightarrow> ty = RGB) \<and>
         map_sum id snd (requestComplete lc mem s
             (request\<lparr>req_buffers :=
                filter (\<lambda>(st, b). getStreamType smgr st \<noteq> RAW) (req_buffers request)\<rparr>)) =
           map_sum id snd (requestComplete lc mem s request) \<and>
         (\<forall>sm0 rawStream configs.
            configure lc sm0 rawStream configs = Inr (True, sm) \<and>
            distinct (map cfg_stream cfgs) \<and> (\<forall>r. rawStream = Some r \<longrightarrow> sc_type r = RAW) \<longrightarrow>
            cfgs \<noteq> [] \<and> getStreamType sm (cfg_stream (hd cfgs)) = RAW)"
proof -
  have c: "cfgs \<noteq> [] \<and> getStreamType sm (cfg_stream (hd cfgs)) = RAW"
    if "configure lc sm0 rawStream configs = Inr (True, sm)" "distinct (map cfg_stream cfgs)"
      "\<forall>r. rawStream = Some r \<longrightarrow> sc_type r = RAW"
    for sm0 rawStream configs
    by (rule configure_registers_raw [OF that(1) assms(1) that(2,3)])
  have a: "\<forall>a \<in> dom (sm_mappedBuffers sm').
            a \<in> dom (sm_mappedBuffers sm) \<or>
            (\<exists>cfg \<in> set cfgs. \<exists>bufs fb. lc_allocate lc (cfg_stream cfg) = Some bufs \<and>
               fb \<in> set bufs \<and> fb_addr fb = a \<and> sm_streamTypes sm (cfg_stream cfg) \<noteq> Some RAW)"
    using allocateBuffers_mapped [OF assms(1,2)] by blast
  have b: "\<forall>events cb ty f. process_buffers mem s ts seq bufs = Inr events \<and>
            FrameDelivered cb ty f \<in> set events \<longrightarrow> ty = RGB"
    using process_buffers_types by blast
  have c': "\<forall>sm0 rawStream configs.
            configure lc sm0 rawStream configs = Inr (True, sm) \<and>
            distinct (map cfg_stream cfgs) \<and> (\<forall>r. rawStream = Some r \<longrightarrow> sc_type r = RAW) \<longrightarrow>
            cfgs \<noteq> [] \<and> getStreamType sm (cfg_stream (hd cfgs)) = RAW"
  proof (intro allI impI)
    fix sm0 rawStream configs
    assume h: "configure lc sm0 rawStream configs = Inr (True, sm) \<and>
            distinct (map cfg_stream cfgs) \<and> (\<forall>r. rawStream = Some r \<longrightarrow> sc_type r = RAW)"
    show "cfgs \<noteq> [] \<and> getStreamType sm (cfg_stream (hd cfgs)) = RAW"
      by (rule c [OF h [THEN conjunct1] h [THEN conjunct2, THEN conjunct1]
            h [THEN conjunct2, THEN conjunct2]])
  qed
  show ?thesis
    by (intro conjI, rule mapBuffer_RAW, rule a, rule process_buffers_RAW [OF assms(3)], rule b,
        rule requestComplete_RAW [OF assms(3)], rule c')
qed

theorem raw_buffers_never_mapped_nor_delivered_witness:
  "\<exists>sm1 sm2.
     configure demo_layer StreamManager_new (Some demo_raw) [demo_rgb] = Inr (True, sm1) \<and>
     allocateBuffers demo_layer sm1 = Inr (True, sm2) \<and>
     getStreamType sm2 100 = RAW \<and>
     sm_streamBuffers sm2 100 = Some [1000] \<and>
     sm_mappedBuffers sm2 1000 = None \<and>
     process_buffers (\<lambda>a. replicate 2764800 0) (Impl_new\<lparr>impl_streamManager := Some sm2\<rparr>) 7 3
         [(100, 1000), (101, 1010)] =
       Inr [FrameDelivered 0 RGB \<lparr>data = replicate 2764800 0, timestamp = 7, sequence = 3,
                                   owner = None\<rparr>]"
proof -
  from demo_configure obtain sm1 where
    c: "configure demo_layer StreamManager_new (Some demo_raw) [demo_rgb] = Inr (True, sm1)"
    and cfg: "sm_config sm1 = Some [\<lparr>size_width = 2304, size_height = 1296, pixelFormat = SBGGR10,
                             bufferCount = 6, cfg_stream = 100\<rparr>,
                           \<lparr>size_width = 1280, size_height = 720, pixelFormat = BGR888,
                             bufferCount = 6, cfg_stream = 101\<rparr>]"
    and ty: "sm_streamTypes sm1 = [100 \<mapsto> RAW, 101 \<mapsto> RGB]"
    and em: "sm_mappedBuffers sm1 = Map.empty" "sm_streamBuffers sm1 = Map.empty" "sm_requests sm1 = []"
    by blast
  from demo_allocate [OF cfg ty em] obtain sm2 where
    a: "allocateBuffers demo_layer sm1 = Inr (True, sm2)"
    and ty2: "sm_streamTypes sm2 = [100 \<mapsto> RAW, 101 \<mapsto> RGB]"
    and sb2: "sm_streamBuffers sm2 = [100 \<mapsto> [1000], 101 \<mapsto> [1010]]"
    and mb2: "sm_mappedBuffers sm2 = [1010 \<mapsto> \<lparr>mb_data = 5101, mb_size = 2764800\<rparr>]"
    by blast
  let ?s = "Impl_new\<lparr>impl_streamManager := Some sm2\<rparr>"
  have sm: "impl_streamManager ?s = Some sm2" by simp
  note t = raw_buffers_never_mapped_nor_delivered [OF cfg a sm,
      of sm1 "\<lparr>fb_addr = 1000, fb_planes = []\<rparr>" 2304 1296 "\<lambda>a. replicate 2764800 0" 7 3 "[(100, 1000), (101, 1010)]" demo_request]
  have unmapped: "sm_mappedBuffers sm2 1000 = None"
  proof (rule ccontr)
    assume "sm_mappedBuffers sm2 1000 \<noteq> None"
    then have "1000 \<in> dom (sm_mappedBuffers sm2)" by auto
    with t [THEN conjunct2, THEN conjunct1]
    have "1000 \<in> dom (sm_mappedBuffers sm1) \<or>
        (\<exists>cfg \<in> set [\<lparr>size_width = 2304, size_height = 1296, pixelFormat = SBGGR10,
                             bufferCount = 6, cfg_stream = 100\<rparr>,
                           \<lparr>size_width = 1280, size_height = 720, pixelFormat = BGR888,
                             bufferCount = 6, cfg_stream = 101\<rparr>].
           \<exists>bufs fb. lc_allocate demo_layer (cfg_stream cfg) = Some bufs \<and> fb \<in> set bufs \<and>
             fb_addr fb = 1000 \<and> sm_streamTypes sm1 (cfg_stream cfg) \<noteq> Some RAW)"
      by blast
    then show False
      by (auto simp: em ty demo_layer_def)
  qed
  have raw: "getStreamType sm2 100 = RAW"
    by (simp add: getStreamType_def ty2)
  have "process_buffers (\<lambda>a. replicate 2764800 0) ?s 7 3 [(100, 1000), (101, 1010)] =
        process_buffers (\<lambda>a. replicate 2764800 0) ?s 7 3 [(101, 1010)]"
    using t [THEN conjunct2, THEN conjunct2, THEN conjunct1]
    by (simp add: getStreamType_def ty2 del: process_buffers.simps)
  also have "\<dots> = Inr [FrameDelivered 0 RGB \<lparr>data = replicate 2764800 0, timestamp = 7,
                           sequence = 3, owner = None\<rparr>]"
    by (simp add: getStreamType_def getMappedData_def getMappedSize_def ty2 mb2 Impl_new_def)
  finally show ?thesis using c a raw sb2 unmapped by auto
qed

text \<open>
  Claim C1 fails on the code. Before \<^verbatim>\<open>configure\<close>, \<^verbatim>\<open>config_\<close> is a null pointer, and
  \<^verbatim>\<open>allocateBuffers\<close> dereferences it in its first statement: it does not return
  \<open>false\<close>. The same holds after a \<^verbatim>\<open>configure\<close> that failed to generate a configuration.
\<close>

theorem allocateBuffers_before_configure:
  "allocateBuffers lc StreamManager_new = Inl NullDereference \<and>
   (lc_generateConfiguration lc (fst (build_roles rawStream configs)) = None \<longrightarrow>
      (\<exists>sm. configure lc StreamManager_new rawStream configs = Inr (False, sm) \<and>
            allocateBuffers lc sm = Inl NullDereference))"
  by (simp add: allocateBuffers_def StreamManager_new_def configure_def split_def)

theorem allocateBuffers_before_configure_witness:
  "lc_generateConfiguration (demo_layer\<lparr>lc_generateConfiguration := (\<lambda>roles. None)\<rparr>)
      (fst (build_roles None [demo_rgb])) = None \<and>
   (\<exists>sm. configure (demo_layer\<lparr>lc_generateConfiguration := (\<lambda>roles. None)\<rparr>)
            StreamManager_new None [demo_rgb] = Inr (False, sm) \<and>
         allocateBuffers (demo_layer\<lparr>lc_generateConfiguration := (\<lambda>roles. None)\<rparr>) sm
           = Inl NullDereference)"
  using allocateBuffers_before_configure
    [of "demo_layer\<lparr>lc_generateConfiguration := (\<lambda>roles. None)\<rparr>" None "[demo_rgb]"]
  by simp

section \<open>Properties of JpegEncoder\<close>

lemma encode_dataSize_exact:
  assumes "unat w * unat h * 3 < 2 ^ 32"
  shows "encode_dataSize w h = unat w * unat h * 3 div 2"
proof -
  have wh: "unat w * unat h < 2 ^ 32" using assms by simp
  have "unat (w * h) = unat w * unat h"
    using wh by (simp add: unat_mult_lem [THEN iffD1])
  moreover have "unat (w * h * 3) = unat (w * h) * unat (3 :: uint32)"
    using assms calculation by (simp add: unat_mult_lem [THEN iffD1])
  ultimately have "unat (w * h * 3) = unat w * unat h * 3" by simp
  then show ?thesis
    by (simp add: encode_dataSize_def unat_div)
qed

lemma encode_Queued:
  assumes "encode enc yuvData w h q ts seq cb = Inr (Queued enc')"
    and "encode_copy yuvData w h = Inr dataCopy"
  shows "enc_queue enc' = enc_queue enc @
           [\<lparr>task_data = dataCopy, task_width = w, task_height = h, task_quality = q,
             task_timestamp = ts, task_sequence = seq, task_callback = cb,
             task_dataOwner = dataCopy\<rparr>]"
  using assms by (auto simp: encode_def encode_locked_def split: if_splits)

lemma process_task_events:
  assumes "process_task tj enc task = Inr (enc', events)"
    and "compress_task tj task (tj_bufSizeYUV2 tj (task_width task) (task_height task)) = (result, jpeg)"
  shows "events = (if result = 0
                   then [FrameDelivered (task_callback task) JPEG
                           \<lparr>data = jpeg, timestamp = task_timestamp task,
                            sequence = task_sequence task, owner = Some jpeg\<rparr>]
                   else [])"
  using assms by (auto simp: process_task_def Let_def split: if_splits)

lemma process_task_returns:
  assumes "compress_task tj task (tj_bufSizeYUV2 tj (task_width task) (task_height task)) = (result, jpeg)"
    and "length jpeg \<le> tj_bufSizeYUV2 tj (task_width task) (task_height task)"
  shows "\<exists>enc' events. process_task tj enc task = Inr (enc', events)"
  using assms by (auto simp: process_task_def Let_def)

lemma encode_locked_full:
  "enc_running enc \<Longrightarrow> enc_maxQueueSize enc \<le> length (enc_queue enc) \<Longrightarrow>
   encode_locked enc task = Waiting task"
  by (simp add: encode_locked_def encode_pred_def)

lemma encode_full:
  "enc_running enc \<Longrightarrow> enc_maxQueueSize enc \<le> length (enc_queue enc) \<Longrightarrow>
   encode enc yuvData w h q ts seq cb = Inr r \<Longrightarrow> \<exists>task. r = Waiting task"
  by (auto simp: encode_def encode_locked_full split: sum.splits)

lemma wake_all_full:
  "enc_running enc \<Longrightarrow> enc_maxQueueSize enc \<le> length (enc_queue enc) \<Longrightarrow>
   wake_all enc waiting = (enc, waiting)"
  by (induction waiting) (simp_all add: encode_locked_full)

lemma worker_dequeue_running:
  "enc_running enc \<Longrightarrow> enc_queue enc \<noteq> [] \<Longrightarrow>
   worker_dequeue enc = Dequeued (hd (enc_queue enc)) (enc\<lparr>enc_queue := tl (enc_queue enc)\<rparr>)"
  by (cases "enc_queue enc") (simp_all add: worker_dequeue_def worker_pred_def)

lemma wake_all_one_slot:
  assumes "enc_running enc" and "Suc (length (enc_queue enc)) = enc_maxQueueSize enc"
  shows "wake_all enc (task # waiting) = (enc\<lparr>enc_queue := enc_queue enc @ [task]\<rparr>, waiting)"
proof -
  have "encode_locked enc task = Queued (enc\<lparr>enc_queue := enc_queue enc @ [task]\<rparr>)"
    using assms by (simp add: encode_locked_def encode_pred_def)
  moreover have "wake_all (enc\<lparr>enc_queue := enc_queue enc @ [task]\<rparr>) waiting =
      (enc\<lparr>enc_queue := enc_queue enc @ [task]\<rparr>, waiting)"
    using assms by (intro wake_all_full) simp_all
  ultimately show ?thesis by simp
qed

lemma enc_reachable_bound:
  "enc_reachable enc \<Longrightarrow> length (enc_queue enc) \<le> enc_maxQueueSize enc"
proof (induction rule: enc_reachable.induct)
  case (enc_new n)
  then show ?case by (simp add: JpegEncoder_new_def)
next
  case (enc_start enc)
  then show ?case by (simp add: JpegEncoder_start_def)
next
  case (enc_stop enc)
  then show ?case by (simp add: JpegEncoder_stop_def)
next
  case (enc_encode enc task enc')
  then show ?case
    by (auto simp: encode_locked_def encode_pred_def split: if_splits)
next
  case (enc_dequeue enc task enc')
  then show ?case
    by (auto simp: worker_dequeue_def split: if_splits list.splits)
next
  case (enc_process enc tj task enc' events)
  then show ?case
    by (auto simp: process_task_def Let_def split: if_splits prod.splits)
qed

section \<open>The claims about JpegEncoder\<close>

text \<open>
  Claim C7, as amended. \<^verbatim>\<open>encode\<close> computes the byte count \<^verbatim>\<open>width * height * 3 / 2\<close> in
  32-bit unsigned arithmetic. For every width \<open>w\<close> and height \<open>h\<close> with \<open>w * h * 3 < 2^32\<close>
  and a source that holds that many bytes, \<^verbatim>\<open>encode\<close> copies exactly the first
  \<open>w * h * 3 div 2\<close> bytes of the source; the task it enqueues carries the copy as its data
  and as the owner of its data, with the width, height, quality, timestamp, sequence and
  callback it was given. When the worker has processed a task and the compressor
  returned 0 with an image, the worker has made exactly one callback invocation: the
  task's callback, type \<open>JPEG\<close>, a frame whose data is the image (so of the compressed
  length), owned by the frame, with the task's timestamp and sequence.
\<close>

theorem encode_copies_and_worker_delivers:
  assumes "unat w * unat h * 3 < 2 ^ 32"
    and "unat w * unat h * 3 div 2 \<le> length yuvData"
  shows "encode_copy yuvData w h = Inr (take (unat w * unat h * 3 div 2) yuvData) \<and>
         length (take (unat w * unat h * 3 div 2) yuvData) = unat w * unat h * 3 div 2 \<and>
         (\<forall>enc q ts seq cb enc'.
            encode enc yuvData w h q ts seq cb = Inr (Queued enc') \<longrightarrow>
            enc_queue enc' = enc_queue enc @
              [\<lparr>task_data = take (unat w * unat h * 3 div 2) yuvData, task_width = w,
                task_height = h, task_quality = q, task_timestamp = ts, task_sequence = seq,
                task_callback = cb,
                task_dataOwner = take (unat w * unat h * 3 div 2) yuvData\<rparr>]) \<and>
         (\<forall>tj encw task encw' events jpeg.
            process_task tj encw task = Inr (encw', events) \<and>
            compress_task tj task (tj_bufSizeYUV2 tj (task_width task) (task_height task)) = (0, jpeg) \<longrightarrow>
            events = [FrameDelivered (task_callback task) JPEG
                        \<lparr>data = jpeg, timestamp = task_timestamp task,
                         sequence = task_sequence task, owner = Some jpeg\<rparr>])"
proof -
  let ?n = "unat w * unat h * 3 div 2"
  have size: "encode_dataSize w h = ?n"
    by (rule encode_dataSize_exact [OF assms(1)])
  have copy: "encode_copy yuvData w h = Inr (take ?n yuvData)"
    using assms(2) by (simp add: encode_copy_def size)
  have len: "length (take ?n yuvData) = ?n"
    using assms(2) by simp
  have q: "enc_queue enc' = enc_queue enc @
                [\<lparr>task_data = take ?n yuvData, task_width = w, task_height = h, task_quality = q,
                  task_timestamp = ts, task_sequence = seq, task_callback = cb,
                  task_dataOwner = take ?n yuvData\<rparr>]"
    if "encode enc yuvData w h q ts seq cb = Inr (Queued enc')" for enc q ts seq cb enc'
    by (rule encode_Queued [OF that copy])
  have p: "events = [FrameDelivered (task_callback task) JPEG
                          \<lparr>data = jpeg, timestamp = task_timestamp task,
                           sequence = task_sequence task, owner = Some jpeg\<rparr>]"
    if "process_task tj encw task = Inr (encw', events)"
      "compress_task tj task (tj_bufSizeYUV2 tj (task_width task) (task_height task)) = (0, jpeg)"
    for tj encw task encw' events jpeg
    using process_task_events [OF that] by simp
  from copy len q p show ?thesis by blast
qed

theorem encode_copies_and_worker_delivers_witness:
  "unat (1280 :: uint32) * unat (720 :: uint32) * 3 < 2 ^ 32 \<and>
   unat (1280 :: uint32) * unat (720 :: uint32) * 3 div 2 \<le> length (replicate 1382400 (0 :: uint8)) \<and>
   (\<exists>enc' task encw' .
      encode (JpegEncoder_start (JpegEncoder_new 33)) (replicate 1382400 0) 1280 720 85 7 3 1
        = Inr (Queued enc') \<and>
      enc_queue enc' = [task] \<and> length (task_data task) = 1382400 \<and>
      process_task demo_tj enc' task =
        Inr (encw', [FrameDelivered 1 JPEG \<lparr>data = [0xFF, 0xD8, 0xFF, 0xD9], timestamp = 7,
                                            sequence = 3, owner = Some [0xFF, 0xD8, 0xFF, 0xD9]\<rparr>]))"
proof -
  let ?enc = "JpegEncoder_start (JpegEncoder_new 33)"
  let ?yuv = "replicate 1382400 (0 :: uint8)"
  let ?n = "unat (1280 :: uint32) * unat (720 :: uint32) * 3 div 2"
  have h1: "unat (1280 :: uint32) * unat (720 :: uint32) * 3 < 2 ^ 32" by simp
  have h2: "?n \<le> length ?yuv" by simp
  note t = encode_copies_and_worker_delivers [OF h1 h2]
  note copy = t [THEN conjunct1]
  note len = t [THEN conjunct2, THEN conjunct1]
  note queued = t [THEN conjunct2, THEN conjunct2, THEN conjunct1, rule_format]
  note delivered = t [THEN conjunct2, THEN conjunct2, THEN conjunct2, rule_format]
  let ?task = "\<lparr>task_data = take ?n ?yuv, task_width = 1280, task_height = 720, task_quality = 85,
                  task_timestamp = 7, task_sequence = 3, task_callback = 1,
                  task_dataOwner = take ?n ?yuv\<rparr>"
  have "\<exists>enc'. encode ?enc ?yuv 1280 720 85 7 3 1 = Inr (Queued enc')"
    using copy
    by (simp add: encode_def encode_locked_def encode_pred_def JpegEncoder_start_def
        JpegEncoder_new_def)
  then obtain enc' where e: "encode ?enc ?yuv 1280 720 85 7 3 1 = Inr (Queued enc')" by blast
  from queued [OF e] have qu: "enc_queue enc' = [?task]"
    by (simp add: JpegEncoder_start_def JpegEncoder_new_def)
  have c: "compress_task demo_tj ?task (tj_bufSizeYUV2 demo_tj (task_width ?task) (task_height ?task))
        = (0, [0xFF, 0xD8, 0xFF, 0xD9])"
    by (simp add: compress_task_def demo_tj_def Let_def)
  have "\<exists>encw' events. process_task demo_tj enc' ?task = Inr (encw', events)"
    by (rule process_task_returns [OF c]) (simp add: demo_tj_def)
  then obtain encw' events where pt: "process_task demo_tj enc' ?task = Inr (encw', events)"
    by blast
  from delivered [OF conjI [OF pt c]] pt
  have "process_task demo_tj enc' ?task =
        Inr (encw', [FrameDelivered 1 JPEG \<lparr>data = [0xFF, 0xD8, 0xFF, 0xD9], timestamp = 7,
                                            sequence = 3, owner = Some [0xFF, 0xD8, 0xFF, 0xD9]\<rparr>])"
    by simp
  with e qu h1 h2 show ?thesis
    by (intro conjI exI [of _ enc'] exI [of _ ?task] exI [of _ encw']) simp_all
qed

text \<open>
  Claim C7 as stated fails where the 32-bit product wraps: for a 65536 by 65536 frame
  \<^verbatim>\<open>encode\<close> computes a size of 0 and copies nothing, where \<open>w * h * 3 / 2\<close> is
  6442450944.
\<close>

theorem encode_copy_wraps_at_65536:
  "encode_dataSize 65536 65536 = 0 \<and>
   unat (65536 :: uint32) * unat (65536 :: uint32) * 3 div 2 = 6442450944 \<and>
   encode_copy (replicate 6442450944 0) 65536 65536 = Inr []"
  by (simp add: encode_dataSize_def encode_copy_def)

text \<open>
  Claim C9, over the atomic steps under the queue mutex. Let the encoder run with
  \<open>maxQueueSize\<close> tasks queued. A producer's step then waits with its task in hand and
  changes nothing: \<^verbatim>\<open>encode\<close>, if its copy succeeds, neither enqueues nor returns. If
  the bound is positive, the worker's dequeue takes the front task, and of the blocked
  producers woken by its \<^verbatim>\<open>notify_all\<close>, in whatever order they run, exactly the first
  enqueues; every other one waits again and any further producer waits too. In every
  state an encoder can reach, the queue holds at most \<open>maxQueueSize\<close> tasks.
\<close>

theorem encoder_backpressure:
  assumes "enc_running enc" and "length (enc_queue enc) = enc_maxQueueSize enc"
  shows "encode_locked enc task = Waiting task \<and>
         (\<forall>yuvData w h q ts seq cb r.
            encode enc yuvData w h q ts seq cb = Inr r \<longrightarrow> (\<exists>t. r = Waiting t)) \<and>
         (0 < enc_maxQueueSize enc \<longrightarrow>
            (\<exists>enc1. worker_dequeue enc = Dequeued (hd (enc_queue enc)) enc1 \<and>
               enc_queue enc1 = tl (enc_queue enc) \<and>
               (\<forall>t waiting. wake_all enc1 (t # waiting) =
                  (enc1\<lparr>enc_queue := enc_queue enc1 @ [t]\<rparr>, waiting)) \<and>
               (\<forall>t t'. encode_locked (enc1\<lparr>enc_queue := enc_queue enc1 @ [t]\<rparr>) t' = Waiting t'))) \<and>
         (\<forall>e. enc_reachable e \<longrightarrow> length (enc_queue e) \<le> enc_maxQueueSize e)"
proof -
  have a: "encode_locked enc task = Waiting task"
    using assms by (simp add: encode_locked_full)
  have b: "\<exists>t. r = Waiting t" if "encode enc yuvData w h q ts seq cb = Inr r"
    for yuvData w h q ts seq cb r
    using assms that by (intro encode_full [of enc]) simp_all
  have c: "\<exists>enc1. worker_dequeue enc = Dequeued (hd (enc_queue enc)) enc1 \<and>
               enc_queue enc1 = tl (enc_queue enc) \<and>
               (\<forall>t waiting. wake_all enc1 (t # waiting) =
                  (enc1\<lparr>enc_queue := enc_queue enc1 @ [t]\<rparr>, waiting)) \<and>
               (\<forall>t t'. encode_locked (enc1\<lparr>enc_queue := enc_queue enc1 @ [t]\<rparr>) t' = Waiting t')"
    if pos: "0 < enc_maxQueueSize enc"
  proof -
    let ?enc1 = "enc\<lparr>enc_queue := tl (enc_queue enc)\<rparr>"
    from pos assms(2) have ne: "enc_queue enc \<noteq> []" by auto
    have d: "worker_dequeue enc = Dequeued (hd (enc_queue enc)) ?enc1"
      by (rule worker_dequeue_running [OF assms(1) ne])
    have r1: "enc_running ?enc1" using assms(1) by simp
    have l1: "Suc (length (enc_queue ?enc1)) = enc_maxQueueSize ?enc1"
      using assms(2) pos by simp
    have w: "wake_all ?enc1 (t # waiting) = (?enc1\<lparr>enc_queue := enc_queue ?enc1 @ [t]\<rparr>, waiting)"
      for t waiting
      by (rule wake_all_one_slot [OF r1 l1])
    have f: "encode_locked (?enc1\<lparr>enc_queue := enc_queue ?enc1 @ [t]\<rparr>) t' = Waiting t'" for t t'
      using r1 l1 by (intro encode_locked_full) simp_all
    from d w f show ?thesis by (intro exI [of _ ?enc1]) simp
  qed
  from a b c enc_reachable_bound show ?thesis by blast
qed

theorem encoder_backpressure_witness:
  "enc_running \<lparr>enc_queue = [demo_task 0], enc_running = True, enc_buffer = [], enc_maxQueueSize = 1\<rparr> \<and>
   enc_reachable \<lparr>enc_queue = [demo_task 0], enc_running = True, enc_buffer = [], enc_maxQueueSize = 1\<rparr> \<and>
   encode_locked \<lparr>enc_queue = [demo_task 0], enc_running = True, enc_buffer = [], enc_maxQueueSize = 1\<rparr>
     (demo_task 1) = Waiting (demo_task 1) \<and>
   worker_dequeue \<lparr>enc_queue = [demo_task 0], enc_running = True, enc_buffer = [], enc_maxQueueSize = 1\<rparr>
     = Dequeued (demo_task 0)
         \<lparr>enc_queue = [], enc_running = True, enc_buffer = [], enc_maxQueueSize = 1\<rparr> \<and>
   wake_all \<lparr>enc_queue = [], enc_running = True, enc_buffer = [], enc_maxQueueSize = 1\<rparr>
     [demo_task 1, demo_task 2]
     = (\<lparr>enc_queue = [demo_task 1], enc_running = True, enc_buffer = [], enc_maxQueueSize = 1\<rparr>,
        [demo_task 2])"
proof -
  let ?enc = "\<lparr>enc_queue = [demo_task 0], enc_running = True, enc_buffer = [], enc_maxQueueSize = 1\<rparr>"
  have h1: "enc_running ?enc" by simp
  have h2: "length (enc_queue ?enc) = enc_maxQueueSize ?enc" by simp
  have q: "encode_locked (JpegEncoder_start (JpegEncoder_new 1)) (demo_task 0) = Queued ?enc"
    by (simp add: encode_locked_def encode_pred_def JpegEncoder_start_def JpegEncoder_new_def)
  have reach: "enc_reachable ?enc"
    by (rule enc_encode [OF enc_start [OF enc_new] q])
  note t = encoder_backpressure [OF h1 h2, of "demo_task 1"]
  from t have blocked: "encode_locked ?enc (demo_task 1) = Waiting (demo_task 1)"
    by blast
  from t obtain enc1 where d: "worker_dequeue ?enc = Dequeued (hd (enc_queue ?enc)) enc1"
    and q1: "enc_queue enc1 = tl (enc_queue ?enc)"
    and w: "\<And>t waiting. wake_all enc1 (t # waiting) = (enc1\<lparr>enc_queue := enc_queue enc1 @ [t]\<rparr>, waiting)"
    by auto
  have e1: "enc1 = \<lparr>enc_queue = [], enc_running = True, enc_buffer = [], enc_maxQueueSize = 1\<rparr>"
    using d by (simp add: worker_dequeue_def worker_pred_def)
  from h1 reach blocked d w [of "demo_task 1" "[demo_task 2]"] show ?thesis
    by (simp add: e1)
qed

section \<open>Properties of start and stop\<close>

lemma stop_not_running: "\<not> impl_running s \<Longrightarrow> stop s = Inr s"
  by (simp add: stop_def)

lemma stop_result: "stop s = Inr s' \<Longrightarrow> \<not> impl_running s'"
  by (auto simp: stop_def split: if_splits option.splits prod.splits)

lemma stop_twice: "stop s = Inr s' \<Longrightarrow> stop s' = Inr s'"
  by (rule stop_not_running) (rule stop_result)

lemma initialize_keeps:
  assumes "initialize lc tj s config = Inr (ok, s')"
  shows "impl_running s' = impl_running s"
    and "impl_camera s \<noteq> None \<Longrightarrow> impl_camera s' \<noteq> None"
    and "impl_jpegEncoder s \<noteq> None \<Longrightarrow> impl_jpegEncoder s' \<noteq> None"
    and "impl_streamManager s \<noteq> None \<Longrightarrow> impl_streamManager s' \<noteq> None"
  using assms
  by (auto simp: initialize_def Let_def split: if_splits list.splits sum.splits prod.splits)

lemma start_keeps:
  assumes "start lc s frameCallback errorCallback = Inr (ok, s', events)"
  shows "\<not> ok \<Longrightarrow> impl_running s' = impl_running s"
    and "ok \<Longrightarrow> impl_running s'"
    and "ok \<or> impl_camera s \<noteq> None \<Longrightarrow> impl_camera s' \<noteq> None"
    and "ok \<or> impl_jpegEncoder s \<noteq> None \<Longrightarrow> impl_jpegEncoder s' \<noteq> None"
    and "impl_streamManager s' \<noteq> None"
  using assms
  by (auto simp: start_def Let_def split: if_splits option.splits sum.splits prod.splits)

lemma requestComplete_keeps:
  assumes "requestComplete lc mem s request = Inr (s', events)"
  shows "impl_running s' = impl_running s" and "impl_camera s' = impl_camera s"
    and "impl_jpegEncoder s' = impl_jpegEncoder s" and "impl_streamManager s' = impl_streamManager s"
  using assms
  by (auto simp: requestComplete_def apply_pending_def Let_def
      split: if_splits option.splits sum.splits prod.splits)

lemma reachable_pointers:
  "reachable s \<Longrightarrow> impl_running s \<Longrightarrow>
   impl_camera s \<noteq> None \<and> impl_jpegEncoder s \<noteq> None \<and> impl_streamManager s \<noteq> None"
proof (induction rule: reachable.induct)
  case r_new
  then show ?case by (simp add: Impl_new_def)
next
  case (r_initialize s lc tj config ok s')
  from initialize_keeps [OF r_initialize(2)] r_initialize(3,4) show ?case by blast
next
  case (r_start s lc frameCallback errorCallback ok s' events)
  from start_keeps [OF r_start(2)] r_start(3,4) show ?case by (cases ok) blast+
next
  case (r_stop s s')
  from stop_result [OF r_stop(2)] r_stop(4) show ?case by simp
next
  case (r_setControls s controls)
  then show ?case by (simp add: setControls_def Let_def split: option.splits)
next
  case (r_requestComplete s lc mem request s' events)
  from requestComplete_keeps [OF r_requestComplete(2)] r_requestComplete(3,4) show ?case by simp
qed

lemma reachable_stop_returns: "reachable s \<Longrightarrow> \<exists>s'. stop s = Inr s'"
proof (cases "impl_running s")
  case False
  then show ?thesis by (simp add: stop_def)
next
  case True
  assume "reachable s"
  from reachable_pointers [OF this True] True show ?thesis
    by (auto simp: stop_def)
qed

lemma apply_initial_returns:
  "targetFps (cm_pendingControls cm) \<noteq> Some 0 \<Longrightarrow> targetFps ic \<noteq> Some 0 \<Longrightarrow>
   \<exists>cmo requests'. apply_initial (Some cm) ic requests = Inr (cmo, requests')"
proof (induction requests arbitrary: cm)
  case Nil
  then show ?case by simp
next
  case (Cons request requests)
  from Cons.prems have nz: "targetFps (mergeControls (cm_pendingControls cm) ic) \<noteq> Some 0"
    by (auto simp: assignIfSet_def split: option.splits)
  from applyControls_returns [OF nz, of "req_controls request"]
  obtain cm1 rc1 where one: "applyControls cm ic (req_controls request) = Inr (cm1, rc1)" by blast
  from applyControls_Inr(1) [OF one] nz
  have "targetFps (cm_pendingControls cm1) \<noteq> Some 0" by simp
  from Cons.IH [OF this Cons.prems(2)]
  obtain cmo rs where "apply_initial (Some cm1) ic requests = Inr (cmo, rs)" by blast
  with one show ?case by simp
qed

lemma start_succeeds:
  assumes "impl_streamManager s = Some sm" and "allocateBuffers lc sm = Inr (True, sm')"
    and "impl_jpegEncoder s = Some enc" and "impl_camera s = Some cam"
    and "\<not> lc_cameraStart lc < 0"
    and "impl_controlManager s = Some cm" and "targetFps (cm_pendingControls cm) \<noteq> Some 0"
    and "targetFps (with_defaults (impl_initialControls s)) \<noteq> Some 0"
  shows "\<exists>s'. start lc s frameCallback errorCallback = Inr (True, s', [])"
proof -
  from apply_initial_returns [OF assms(7,8), of "sm_requests sm'"]
  obtain cmo rs where
    "apply_initial (Some cm) (with_defaults (impl_initialControls s)) (sm_requests sm') = Inr (cmo, rs)"
    by blast
  with assms(1-6) show ?thesis
    by (simp add: start_def Let_def)
qed

lemma start_fails_at_camera:
  assumes "impl_streamManager s = Some sm" and "allocateBuffers lc sm = Inr (True, sm')"
    and "impl_jpegEncoder s = Some enc" and "impl_camera s = Some cam"
    and "lc_cameraStart lc < 0"
  shows "\<exists>s'. start lc s frameCallback errorCallback =
           Inr (False, s', [ErrorReported errorCallback
                              ''Failed to start camera capture. Check camera permissions.''])"
  using assms by (simp add: start_def Let_def)

lemma demo_allocate_any:
  assumes "sm_config sm1 = Some [\<lparr>size_width = 2304, size_height = 1296, pixelFormat = SBGGR10,
                             bufferCount = 6, cfg_stream = 100\<rparr>,
                           \<lparr>size_width = 1280, size_height = 720, pixelFormat = BGR888,
                             bufferCount = 6, cfg_stream = 101\<rparr>]"
    and "sm_streamTypes sm1 = [100 \<mapsto> RAW, 101 \<mapsto> RGB]"
    and "sm_mappedBuffers sm1 = Map.empty" and "sm_streamBuffers sm1 = Map.empty"
    and "sm_requests sm1 = []"
  shows "\<exists>sm2. allocateBuffers (demo_layer\<lparr>lc_cameraStart := x\<rparr>) sm1 = Inr (True, sm2)"
  using assms
  by (simp add: allocateBuffers_def demo_layer_def streamTypes_subscript_def mapBuffer_def
      mmap_planes_def numRequests_def upt_rec [of _ 6] demo_request_def addBuffer_def Let_def)

lemma demo_initialize:
  "\<exists>s1 sm1 enc. initialize demo_layer demo_tj Impl_new demo_config = Inr (True, s1) \<and>
     impl_streamManager s1 = Some sm1 \<and>
     sm_config sm1 = Some [\<lparr>size_width = 2304, size_height = 1296, pixelFormat = SBGGR10,
                             bufferCount = 6, cfg_stream = 100\<rparr>,
                           \<lparr>size_width = 1280, size_height = 720, pixelFormat = BGR888,
                             bufferCount = 6, cfg_stream = 101\<rparr>] \<and>
     sm_streamTypes sm1 = [100 \<mapsto> RAW, 101 \<mapsto> RGB] \<and>
     sm_mappedBuffers sm1 = Map.empty \<and> sm_streamBuffers sm1 = Map.empty \<and> sm_requests sm1 = [] \<and>
     impl_jpegEncoder s1 = Some enc \<and> impl_camera s1 = Some 0 \<and>
     impl_controlManager s1 = Some ControlManager_new \<and> impl_initialControls s1 = noControls \<and>
     \<not> impl_running s1"
proof -
  from demo_configure obtain sm1 where
    c: "configure demo_layer StreamManager_new (Some demo_raw) [demo_rgb] = Inr (True, sm1)"
    and rest: "sm_config sm1 = Some [\<lparr>size_width = 2304, size_height = 1296, pixelFormat = SBGGR10,
                             bufferCount = 6, cfg_stream = 100\<rparr>,
                           \<lparr>size_width = 1280, size_height = 720, pixelFormat = BGR888,
                             bufferCount = 6, cfg_stream = 101\<rparr>]"
      "sm_streamTypes sm1 = [100 \<mapsto> RAW, 101 \<mapsto> RGB]"
      "sm_mappedBuffers sm1 = Map.empty" "sm_streamBuffers sm1 = Map.empty" "sm_requests sm1 = []"
    by blast
  have l: "lc_managerStart demo_layer = 0" "lc_cameras demo_layer = [0]" "lc_acquire demo_layer = 0"
    by (simp_all add: demo_layer_def)
  have "tj_initCompress demo_tj" by (simp add: demo_tj_def)
  with c rest l show ?thesis
    by (simp add: initialize_def demo_config_def Let_def Impl_new_def)
qed

section \<open>The claim about stop\<close>

text \<open>
  Claim C8. When the orchestrator is not running, \<^verbatim>\<open>stop\<close> returns and changes nothing.
  Whenever \<^verbatim>\<open>stop\<close> returns, the orchestrator is not running and a second \<^verbatim>\<open>stop\<close>
  returns the same state. In every state the public operations and the completion
  handler can leave, \<^verbatim>\<open>stop\<close> returns (it dereferences no null pointer). A \<^verbatim>\<open>start\<close> or an
  \<^verbatim>\<open>initialize\<close> that fails leaves the running flag as it was, so after a failure from a
  state that was not running \<^verbatim>\<open>stop\<close> is a no-op.
\<close>

theorem stop_idempotent:
  "(\<not> impl_running s \<longrightarrow> stop s = Inr s) \<and>
   (\<forall>s'. stop s = Inr s' \<longrightarrow> stop s' = Inr s' \<and> \<not> impl_running s') \<and>
   (reachable s \<longrightarrow> (\<exists>s'. stop s = Inr s')) \<and>
   (\<forall>lc frameCallback errorCallback s' events.
      start lc s frameCallback errorCallback = Inr (False, s', events) \<longrightarrow>
      impl_running s' = impl_running s \<and> (\<not> impl_running s \<longrightarrow> stop s' = Inr s')) \<and>
   (\<forall>lc tj config s'.
      initialize lc tj s config = Inr (False, s') \<longrightarrow>
      impl_running s' = impl_running s \<and> (\<not> impl_running s \<longrightarrow> stop s' = Inr s'))"
proof -
  have a: "stop s' = Inr s' \<and> \<not> impl_running s'" if "stop s = Inr s'" for s'
    using stop_twice [OF that] stop_result [OF that] by simp
  have b: "impl_running s' = impl_running s \<and> (\<not> impl_running s \<longrightarrow> stop s' = Inr s')"
    if "start lc s frameCallback errorCallback = Inr (False, s', events)"
    for lc frameCallback errorCallback s' events
    using start_keeps(1) [OF that] by (simp add: stop_not_running)
  have c: "impl_running s' = impl_running s \<and> (\<not> impl_running s \<longrightarrow> stop s' = Inr s')"
    if "initialize lc tj s config = Inr (False, s')" for lc tj config s'
    using initialize_keeps(1) [OF that] by (simp add: stop_not_running)
  from a b c stop_not_running reachable_stop_returns show ?thesis by blast
qed

theorem stop_idempotent_witness:
  "\<exists>s1 s2 s3 s4 events.
     initialize demo_layer demo_tj Impl_new demo_config = Inr (True, s1) \<and>
     start demo_layer s1 1 2 = Inr (True, s2, []) \<and> impl_running s2 \<and> reachable s2 \<and>
     stop s2 = Inr s3 \<and> \<not> impl_running s3 \<and> stop s3 = Inr s3 \<and>
     start (demo_layer\<lparr>lc_cameraStart := - 1\<rparr>) s1 1 2 = Inr (False, s4, events) \<and>
     \<not> impl_running s4 \<and> stop s4 = Inr s4"
proof -
  from demo_initialize obtain s1 sm1 enc where
    i: "initialize demo_layer demo_tj Impl_new demo_config = Inr (True, s1)"
    and sm: "impl_streamManager s1 = Some sm1"
    and cfg: "sm_config sm1 = Some [\<lparr>size_width = 2304, size_height = 1296, pixelFormat = SBGGR10,
                             bufferCount = 6, cfg_stream = 100\<rparr>,
                           \<lparr>size_width = 1280, size_height = 720, pixelFormat = BGR888,
                             bufferCount = 6, cfg_stream = 101\<rparr>]"
      "sm_streamTypes sm1 = [100 \<mapsto> RAW, 101 \<mapsto> RGB]"
      "sm_mappedBuffers sm1 = Map.empty" "sm_streamBuffers sm1 = Map.empty" "sm_requests sm1 = []"
    and enc: "impl_jpegEncoder s1 = Some enc" and cam: "impl_camera s1 = Some 0"
    and cm: "impl_controlManager s1 = Some ControlManager_new"
    and ic: "impl_initialControls s1 = noControls"
    and nr: "\<not> impl_running s1"
    by blast
  from demo_allocate_any [OF cfg, of 0] obtain sm2 where
    a: "allocateBuffers demo_layer sm1 = Inr (True, sm2)"
    by (auto simp: demo_layer_def)
  from demo_allocate_any [OF cfg, of "- 1"] obtain sm2' where
    a': "allocateBuffers (demo_layer\<lparr>lc_cameraStart := - 1\<rparr>) sm1 = Inr (True, sm2')"
    by blast
  have "\<exists>s2. start demo_layer s1 1 2 = Inr (True, s2, [])"
    by (rule start_succeeds [OF sm a enc cam _ cm])
       (simp_all add: demo_layer_def ControlManager_new_def noControls_def ic with_defaults_def)
  then obtain s2 where st: "start demo_layer s1 1 2 = Inr (True, s2, [])" by blast
  have "\<exists>s4. start (demo_layer\<lparr>lc_cameraStart := - 1\<rparr>) s1 1 2 =
           Inr (False, s4, [ErrorReported 2 ''Failed to start camera capture. Check camera permissions.''])"
    by (rule start_fails_at_camera [OF sm a' enc cam]) simp
  then obtain s4 where st': "start (demo_layer\<lparr>lc_cameraStart := - 1\<rparr>) s1 1 2 =
           Inr (False, s4, [ErrorReported 2 ''Failed to start camera capture. Check camera permissions.''])"
    by blast
  have r1: "reachable s1" by (rule r_initialize [OF r_new i])
  have r2: "reachable s2" by (rule r_start [OF r1 st])
  have run2: "impl_running s2" by (rule start_keeps(2) [OF st]) simp
  from stop_idempotent [of s2] r2 obtain s3 where
    s3: "stop s2 = Inr s3" and s3': "stop s3 = Inr s3" "\<not> impl_running s3"
    by blast
  from stop_idempotent [of s1] st' nr have s4: "\<not> impl_running s4" "stop s4 = Inr s4"
    by blast+
  from i st run2 r2 s3 s3' st' s4 show ?thesis by blast
qed

end
